theory Spec2Isabelle
  imports Main "HOL-Library.Word"
begin

unbundle bit_operations_syntax

section \<open>The goldfish graphics mapper (system/hals/mapper3.cpp)\<close>

text \<open>
  A shallow embedding of \<^verbatim>\<open>GoldfishMapper\<close>: the buffer handle, the lock and unlock
  state machine, the import and free of handles, the YUV plane layout of
  \<^verbatim>\<open>lockYCbCrImpl\<close> and the descriptor support check.

  Machine integers are words of the width the C++ gives them. \<^verbatim>\<open>size_t\<close> and pointers
  are 64 bits wide (the LP64 targets of the emulator images); a pointer is its
  address, and the null pointer is address 0.
\<close>

type_synonym u8 = "8 word"
type_synonym i8 = "8 word"
type_synonym u32 = "32 word"
type_synonym i32 = "32 word"
type_synonym u64 = "64 word"
type_synonym size_t = "64 word"
type_synonym pointer = "64 word"

subsection \<open>Results\<close>

text \<open>\<^verbatim>\<open>MapperV3::Error\<close>, the typed result of every operation.\<close>

datatype Error3 = NONE | BAD_DESCRIPTOR | BAD_BUFFER | BAD_VALUE | NO_RESOURCES | UNSUPPORTED

text \<open>
  An operation either returns, or ends the process (\<^verbatim>\<open>CRASH\<close>, \<^verbatim>\<open>LOG_ALWAYS_FATAL_IF\<close>),
  or reads an array outside its bounds, which C++ leaves undefined.
\<close>

datatype 'a exec = Fatal | Undef | Return 'a

subsection \<open>Constants of the HIDL interface\<close>

text \<open>
  \<^verbatim>\<open>BufferUsage\<close> (graphics.common 1.0) and \<^verbatim>\<open>PixelFormat\<close> (graphics.common 1.2) are
  enumerations of the platform interface, which mapper3.cpp includes; the values are
  those of the interface definition. \<^verbatim>\<open>BufferUsage\<close> is a 64-bit enumeration, so an
  expression that mixes it with a narrower integer is evaluated on 64 bits.
\<close>

definition CPU_READ_MASK :: u64 where "CPU_READ_MASK = 0xF"
definition CPU_WRITE_MASK :: u64 where "CPU_WRITE_MASK = 0xF0"
definition GPU_TEXTURE :: u64 where "GPU_TEXTURE = push_bit 8 1"
definition GPU_RENDER_TARGET :: u64 where "GPU_RENDER_TARGET = push_bit 9 1"
definition COMPOSER_OVERLAY :: u64 where "COMPOSER_OVERLAY = push_bit 11 1"
definition COMPOSER_CLIENT_TARGET :: u64 where "COMPOSER_CLIENT_TARGET = push_bit 12 1"
definition VIDEO_DECODER :: u64 where "VIDEO_DECODER = push_bit 22 1"
definition GPU_DATA_BUFFER :: u64 where "GPU_DATA_BUFFER = push_bit 24 1"

definition RGBA_8888 :: i32 where "RGBA_8888 = 0x1"
definition RGBX_8888 :: i32 where "RGBX_8888 = 0x2"
definition RGB_888 :: i32 where "RGB_888 = 0x3"
definition RGB_565 :: i32 where "RGB_565 = 0x4"
definition BGRA_8888 :: i32 where "BGRA_8888 = 0x5"
definition YCRCB_420_SP :: i32 where "YCRCB_420_SP = 0x11"
definition RGBA_FP16 :: i32 where "RGBA_FP16 = 0x16"
definition RAW16 :: i32 where "RAW16 = 0x20"
definition BLOB :: i32 where "BLOB = 0x21"
definition IMPLEMENTATION_DEFINED :: i32 where "IMPLEMENTATION_DEFINED = 0x22"
definition YCBCR_420_888 :: i32 where "YCBCR_420_888 = 0x23"
definition RGBA_1010102 :: i32 where "RGBA_1010102 = 0x2B"
definition YCBCR_P010 :: i32 where "YCBCR_P010 = 0x36"
definition Y16 :: i32 where "Y16 = 0x20363159"
definition YV12 :: i32 where "YV12 = 0x32315659"

definition kOMX_COLOR_FormatYUV420Planar :: i32 where
  "kOMX_COLOR_FormatYUV420Planar = 19"

text \<open>\<^verbatim>\<open>errno\<close> values of Linux.\<close>

definition EINVAL :: int where "EINVAL = 22"
definition ETIME :: int where "ETIME = 62"

subsection \<open>Data\<close>

text \<open>
  \<^verbatim>\<open>IMapper::Rect\<close>: four \<^verbatim>\<open>int32_t\<close>. The handle stores them in \<^verbatim>\<open>uint32_t\<close> fields;
  the conversion keeps the 32 bits.
\<close>

record Rect =
  rect_left :: i32
  rect_top :: i32
  rect_width :: i32
  rect_height :: i32

text \<open>\<^verbatim>\<open>IMapper::BufferDescriptorInfo\<close>.\<close>

record BufferDescriptorInfo =
  d_width :: u32
  d_height :: u32
  d_layerCount :: u32
  d_format :: i32
  d_usage :: u64

text \<open>
  Modelled from the spec: \<^verbatim>\<open>cb_handle_30_t\<close>, whose declaration (cb_handle_30.h) is not
  among the sources. It is the buffer handle of the specification (section 3): the
  descriptor, the derived layout, the optional host handle (0 when absent), the
  mapping and the lock state. The fields are the ones mapper3.cpp reads and writes,
  as unsigned 32-bit geometry, sizes and identifiers, an 8-bit \<^verbatim>\<open>lockedUsage\<close>
  (mapper3.cpp computes the checked usage as \<^verbatim>\<open>uint8_t\<close>), a signed 8-bit
  \<^verbatim>\<open>bufferFdIndex\<close>, a 64-bit mapped offset and buffer pointer (\<^verbatim>\<open>getMmapedOffset\<close>,
  \<^verbatim>\<open>getBufferPtr\<close>, \<^verbatim>\<open>setBufferPtr\<close>), and the file descriptors \<^verbatim>\<open>fds\<close>.
\<close>

record cb_handle_30_t =
  fds :: "i32 list"
  hostHandle :: u32
  format :: u32
  stride :: u32
  bufferSize :: u32
  mmapedOffset :: u64
  usage :: u32
  width :: u32
  height :: u32
  glFormat :: u32
  glType :: u32
  bytesPerPixel :: u32
  mmapedSize :: u32
  bufferPtr :: pointer
  lockedUsage :: u8
  bufferFdIndex :: i8
  lockedLeft :: u32
  lockedTop :: u32
  lockedWidth :: u32
  lockedHeight :: u32

text \<open>
  What a \<^verbatim>\<open>native_handle_t*\<close> that is handed to the mapper points to: a handle of the
  \<^verbatim>\<open>cb_handle_30_t\<close> layout, or a handle of another layout, of which only the file
  descriptors matter here. A null pointer is \<open>None\<close>.
\<close>

datatype native_handle = Opaque "i32 list" | CbHandle cb_handle_30_t

text \<open>
  Modelled from the spec: \<^verbatim>\<open>cb_handle_30_t::from\<close> (cb_handle_30.h, not among the
  sources), the decoding of a handle to the recognized buffer-handle layout: the
  handle seen as a \<^verbatim>\<open>cb_handle_30_t\<close>, or \<^verbatim>\<open>nullptr\<close> when it is not of that layout.
\<close>

fun from_handle :: "native_handle \<Rightarrow> cb_handle_30_t option" where
  "from_handle (CbHandle cb) = Some cb"
| "from_handle (Opaque fs) = None"

text \<open>
  The \<^verbatim>\<open>native_handle_t\<close> inside a \<^verbatim>\<open>hidl_handle\<close> that carries a fence: the two counts
  and the data array.
\<close>

record native_handle_t =
  numFds :: int
  numInts :: int
  data :: "i32 list"

text \<open>
  The YCbCr layout handed back by \<^verbatim>\<open>lockYCbCr\<close> (\<^verbatim>\<open>MapperV3::YCbCrLayout\<close>: three
  pointers and three \<^verbatim>\<open>uint32_t\<close>).
\<close>

record YCbCrLayout3 =
  ycbcr_y :: pointer
  ycbcr_cb :: pointer
  ycbcr_cr :: pointer
  ycbcr_yStride :: u32
  ycbcr_cStride :: u32
  ycbcr_chromaStep :: u32

subsection \<open>The environment\<close>

text \<open>
  The calls that leave mapper3.cpp, as parameters: \<^verbatim>\<open>sync_wait\<close> (file descriptor and
  timeout to return value and \<^verbatim>\<open>errno\<close>), the render-control encoder
  (\<^verbatim>\<open>rcColorBufferCacheFlush\<close> by host handle and read flag, \<^verbatim>\<open>hasYUVCache\<close>, the
  \<^verbatim>\<open>hasReadColorBufferDma\<close> feature), \<^verbatim>\<open>gralloc_is_yuv_format\<close>,
  \<^verbatim>\<open>GoldfishAddressSpaceBlock::memoryMap\<close> (address hint, length, file descriptor and
  offset to return value and mapped address) and the duplication of file descriptors
  inside \<^verbatim>\<open>native_handle_clone\<close> (\<open>None\<close> when it fails). The bytes of the buffer are
  not modelled, so the transfers between host and guest leave no trace here.
\<close>

record env =
  sync_wait :: "i32 \<Rightarrow> int \<Rightarrow> int \<times> int"
  rcColorBufferCacheFlush :: "u32 \<Rightarrow> bool \<Rightarrow> int"
  hasYUVCache :: bool
  hasReadColorBufferDma :: bool
  gralloc_is_yuv_format :: "u32 \<Rightarrow> bool"
  memoryMap :: "pointer \<Rightarrow> u32 \<Rightarrow> i32 \<Rightarrow> u64 \<Rightarrow> int \<times> pointer"
  dup_fds :: "i32 list \<Rightarrow> i32 list option"

text \<open>What the operations do to resources outside the handle they return.\<close>

datatype event =
    HandleClosed native_handle
  | HandleDeleted native_handle
  | MemoryUnmapped pointer u32

subsection \<open>Helpers of the anonymous namespace\<close>

definition align :: "size_t \<Rightarrow> size_t \<Rightarrow> size_t" where
  "align v a = (v + a - 1) AND NOT (a - 1)"

definition waitFenceFd :: "env \<Rightarrow> i32 \<Rightarrow> int" where
  "waitFenceFd e fd =
     (let warningTimeout = 5000 in
      case sync_wait e fd warningTimeout of (r, errno) \<Rightarrow>
        if r < 0 then
          (if errno = ETIME then
             (case sync_wait e fd (- 1) of (r2, errno2) \<Rightarrow>
                if r2 < 0 then errno2 else 0)
           else errno)
        else 0)"

definition waitHidlFence :: "env \<Rightarrow> native_handle_t option \<Rightarrow> int exec" where
  "waitHidlFence e hidlHandle =
     (case hidlHandle of
        None \<Rightarrow> Return 0
      | Some nativeHandle \<Rightarrow>
          if numFds nativeHandle > 1 then Return (- EINVAL)
          else if numInts nativeHandle \<noteq> 0 then Return (- EINVAL)
          else (case data nativeHandle of
                  [] \<Rightarrow> Undef
                | fd # _ \<Rightarrow> Return (waitFenceFd e fd)))"

definition needGpuBuffer :: "u32 \<Rightarrow> bool" where
  "needGpuBuffer usage32 =
     (ucast usage32 AND (GPU_TEXTURE OR GPU_RENDER_TARGET OR COMPOSER_OVERLAY
                         OR COMPOSER_CLIENT_TARGET OR GPU_DATA_BUFFER) \<noteq> 0)"

text \<open>
  \<^verbatim>\<open>ones(from, to)\<close>: the bits \<open>from\<close> to \<open>to\<close>. The code calls it with \<open>from \<le> to\<close>
  and shifts below 64 only.
\<close>

definition one64 :: u64 where "one64 = 1"

definition ones :: "nat \<Rightarrow> nat \<Rightarrow> u64" where
  "ones from to = push_bit from (push_bit (to - from + 1) one64 - 1)"

text \<open>
  \<^verbatim>\<open>native_handle_clone\<close> (libcutils): a copy of the handle with its integers kept and
  its file descriptors duplicated, or \<^verbatim>\<open>nullptr\<close>.
\<close>

definition native_handle_clone :: "env \<Rightarrow> native_handle \<Rightarrow> native_handle option" where
  "native_handle_clone e nh =
     (case nh of
        Opaque fs \<Rightarrow> map_option Opaque (dup_fds e fs)
      | CbHandle cb \<Rightarrow> map_option (\<lambda>fs. CbHandle (cb\<lparr>fds := fs\<rparr>)) (dup_fds e (fds cb)))"

subsection \<open>Import and free\<close>

text \<open>
  \<^verbatim>\<open>importBufferImpl\<close>. The result is the error, the handle stored through \<^verbatim>\<open>phandle\<close>
  (\<open>None\<close> when nothing is stored) and what happened to the clone. An index
  \<^verbatim>\<open>bufferFdIndex\<close> beyond the \<^verbatim>\<open>fds\<close> array is a read outside the array.
\<close>

definition importBufferImpl ::
  "env \<Rightarrow> native_handle option \<Rightarrow> (Error3 \<times> native_handle option \<times> event list) exec" where
  "importBufferImpl e nh =
     (case nh of
        None \<Rightarrow> Return (BAD_BUFFER, None, [])
      | Some h \<Rightarrow>
         (case native_handle_clone e h of
            None \<Rightarrow> Return (BAD_BUFFER, None, [])
          | Some imported \<Rightarrow>
             (case from_handle imported of
                None \<Rightarrow>
                  Return (BAD_BUFFER, None, [HandleClosed imported, HandleDeleted imported])
              | Some cb \<Rightarrow>
                  if mmapedSize cb > 0 then
                    (if sint (bufferFdIndex cb) < 0 then Fatal
                     else if nat (sint (bufferFdIndex cb)) \<ge> length (fds cb) then Undef
                     else
                       (case memoryMap e (bufferPtr cb) (mmapedSize cb)
                               (fds cb ! nat (sint (bufferFdIndex cb))) (mmapedOffset cb) of
                          (res, ptr) \<Rightarrow>
                            if res \<noteq> 0 then
                              Return (NO_RESOURCES, None,
                                      [HandleClosed imported, HandleDeleted imported])
                            else Return (NONE, Some (CbHandle (cb\<lparr>bufferPtr := ptr\<rparr>)), [])))
                  else Return (NONE, Some imported, []))))"

text \<open>
  \<^verbatim>\<open>freeBuffer\<close>. The result is the error, what \<^verbatim>\<open>raw\<close> points to afterwards (\<open>None\<close>
  once the handle is deleted) and the releases made.
\<close>

definition freeBuffer ::
  "native_handle option \<Rightarrow> (Error3 \<times> native_handle option \<times> event list) exec" where
  "freeBuffer raw =
     (case raw of
        None \<Rightarrow> Return (BAD_BUFFER, None, [])
      | Some h \<Rightarrow>
         (case from_handle h of
            None \<Rightarrow> Return (BAD_BUFFER, raw, [])
          | Some cb \<Rightarrow>
              Return (NONE, None,
                (if mmapedSize cb > 0 then [MemoryUnmapped (bufferPtr cb) (mmapedSize cb)]
                 else [])
                @ [HandleClosed h, HandleDeleted h])))"

subsection \<open>Lock\<close>

definition setLocked :: "cb_handle_30_t \<Rightarrow> u8 \<Rightarrow> Rect \<Rightarrow> cb_handle_30_t" where
  "setLocked cb checkedUsage accessRegion =
     (if ucast checkedUsage AND CPU_WRITE_MASK \<noteq> 0 then
        cb\<lparr>lockedLeft := rect_left accessRegion,
           lockedTop := rect_top accessRegion,
           lockedWidth := rect_width accessRegion,
           lockedHeight := rect_height accessRegion,
           lockedUsage := checkedUsage\<rparr>
      else
        cb\<lparr>lockedLeft := 0,
           lockedTop := 0,
           lockedWidth := width cb,
           lockedHeight := height cb,
           lockedUsage := checkedUsage\<rparr>)"

text \<open>
  \<^verbatim>\<open>lockHostImpl\<close>: the cache flush, then the read-back of the colour buffer when the
  lock reads. Only the paths matter here: the read-back of a format that
  \<^verbatim>\<open>gralloc_is_yuv_format\<close> accepts and the switch does not know ends in \<^verbatim>\<open>CRASH\<close>.
\<close>

definition lockHostImpl :: "env \<Rightarrow> cb_handle_30_t \<Rightarrow> u8 \<Rightarrow> Rect \<Rightarrow> Error3 exec" where
  "lockHostImpl e cb checkedUsage accessRegion =
     (let usageSwRead = (ucast checkedUsage AND CPU_READ_MASK \<noteq> 0);
          res = rcColorBufferCacheFlush e (hostHandle cb) usageSwRead
      in if res < 0 then Return NO_RESOURCES
         else if usageSwRead then
           (if gralloc_is_yuv_format e (format cb) then
              (if hasYUVCache e then
                 (if format cb = YV12 then Return NONE
                  else if format cb = YCBCR_420_888 then Return NONE
                  else Fatal)
               else
                 (if format cb = YV12 then Return NONE
                  else if format cb = YCBCR_420_888 then Return NONE
                  else Fatal))
            else
              (if hasReadColorBufferDma e then Return NONE else Return NONE))
         else Return NONE)"

text \<open>
  The usage a lock is granted: the request, the usage the buffer was created with and
  the CPU masks, on 64 bits, cut to \<^verbatim>\<open>uint8_t\<close>.
\<close>

definition checkedUsage_of :: "u64 \<Rightarrow> cb_handle_30_t \<Rightarrow> u8" where
  "checkedUsage_of uncheckedUsage cb =
     ucast (uncheckedUsage AND ucast (usage cb) AND (CPU_READ_MASK OR CPU_WRITE_MASK))"

text \<open>
  \<^verbatim>\<open>lockImpl\<close>. The result is the error, what \<^verbatim>\<open>raw\<close> points to afterwards, and the
  values stored through \<^verbatim>\<open>pptr\<close>, \<^verbatim>\<open>pBytesPerPixel\<close> and \<^verbatim>\<open>pBytesPerStride\<close> (\<open>None\<close>
  when nothing is stored).
\<close>

definition lockImpl ::
  "env \<Rightarrow> native_handle option \<Rightarrow> u64 \<Rightarrow> Rect \<Rightarrow> native_handle_t option
     \<Rightarrow> (Error3 \<times> native_handle option \<times> (pointer \<times> i32 \<times> i32) option) exec" where
  "lockImpl e raw uncheckedUsage accessRegion acquireFence =
     (case raw of
        None \<Rightarrow> Return (BAD_BUFFER, raw, None)
      | Some h \<Rightarrow>
         (case from_handle h of
            None \<Rightarrow> Return (BAD_BUFFER, raw, None)
          | Some cb \<Rightarrow>
              if lockedUsage cb \<noteq> 0 then Return (BAD_VALUE, raw, None)
              else let checkedUsage = checkedUsage_of uncheckedUsage cb in
                if checkedUsage = 0 then Return (BAD_VALUE, raw, None)
                else if bufferSize cb = 0 then Return (BAD_BUFFER, raw, None)
                else let bufferBits = bufferPtr cb in
                  if bufferBits = 0 then Return (BAD_BUFFER, raw, None)
                  else
                    (case waitHidlFence e acquireFence of
                       Fatal \<Rightarrow> Fatal
                     | Undef \<Rightarrow> Undef
                     | Return w \<Rightarrow>
                         if w \<noteq> 0 then Return (BAD_VALUE, raw, None)
                         else
                           (case (if hostHandle cb \<noteq> 0
                                  then lockHostImpl e cb checkedUsage accessRegion
                                  else Return NONE) of
                              Fatal \<Rightarrow> Fatal
                            | Undef \<Rightarrow> Undef
                            | Return err \<Rightarrow>
                                if err \<noteq> NONE then Return (err, raw, None)
                                else
                                  Return (NONE,
                                    Some (CbHandle (setLocked cb checkedUsage accessRegion)),
                                    Some (bufferBits, bytesPerPixel cb,
                                          bytesPerPixel cb * stride cb))))))"

text \<open>
  The plane layout that \<^verbatim>\<open>lockYCbCrImpl\<close> computes in its switch on the format, in
  \<^verbatim>\<open>size_t\<close> variables; \<open>None\<close> is the \<^verbatim>\<open>default\<close> branch. \<^verbatim>\<open>cb->width\<close> and
  \<^verbatim>\<open>cb->height\<close> are 32 bits wide: \<^verbatim>\<open>cb->width * 2\<close> is a 32-bit product, every other
  product has a \<^verbatim>\<open>size_t\<close> operand and is a 64-bit one.
\<close>

record yuv_layout =
  uOffset :: size_t
  vOffset :: size_t
  yStride :: size_t
  cStride :: size_t
  cStep :: size_t

definition lockYCbCr_layout :: "u32 \<Rightarrow> u32 \<Rightarrow> u32 \<Rightarrow> yuv_layout option" where
  "lockYCbCr_layout fmt w h =
     (if fmt = YCRCB_420_SP then
        (let yStride = ucast w;
             cStride = yStride;
             vOffset = yStride * ucast h;
             uOffset = vOffset + 1;
             cStep = 2
         in Some \<lparr>uOffset = uOffset, vOffset = vOffset, yStride = yStride,
                  cStride = cStride, cStep = cStep\<rparr>)
      else if fmt = YV12 then
        (let yStride = align (ucast w) 16;
             cStride = align (yStride div 2) 16;
             vOffset = yStride * ucast h;
             uOffset = vOffset + (cStride * ucast h div 2);
             cStep = 1
         in Some \<lparr>uOffset = uOffset, vOffset = vOffset, yStride = yStride,
                  cStride = cStride, cStep = cStep\<rparr>)
      else if fmt = YCBCR_420_888 then
        (let yStride = ucast w;
             cStride = yStride div 2;
             uOffset = ucast h * yStride;
             vOffset = uOffset + cStride * ucast h div 2;
             cStep = 1
         in Some \<lparr>uOffset = uOffset, vOffset = vOffset, yStride = yStride,
                  cStride = cStride, cStep = cStep\<rparr>)
      else if fmt = YCBCR_P010 then
        (let yStride = ucast (w * 2);
             cStride = yStride;
             uOffset = ucast h * yStride;
             vOffset = uOffset + 2;
             cStep = 4
         in Some \<lparr>uOffset = uOffset, vOffset = vOffset, yStride = yStride,
                  cStride = cStride, cStep = cStep\<rparr>)
      else None)"

text \<open>
  \<^verbatim>\<open>lockYCbCrImpl\<close>. The result is the error, what \<^verbatim>\<open>raw\<close> points to afterwards, and
  the layout stored through \<^verbatim>\<open>pYcbcr\<close> (\<open>None\<close> when nothing is stored).
\<close>

definition lockYCbCrImpl ::
  "env \<Rightarrow> native_handle option \<Rightarrow> u64 \<Rightarrow> Rect \<Rightarrow> native_handle_t option
     \<Rightarrow> (Error3 \<times> native_handle option \<times> YCbCrLayout3 option) exec" where
  "lockYCbCrImpl e raw uncheckedUsage accessRegion acquireFence =
     (case raw of
        None \<Rightarrow> Return (BAD_BUFFER, raw, None)
      | Some h \<Rightarrow>
         (case from_handle h of
            None \<Rightarrow> Return (BAD_BUFFER, raw, None)
          | Some cb \<Rightarrow>
              if lockedUsage cb \<noteq> 0 then Return (BAD_VALUE, raw, None)
              else let checkedUsage = checkedUsage_of uncheckedUsage cb in
                if checkedUsage = 0 then Return (BAD_VALUE, raw, None)
                else if bufferSize cb = 0 then Return (BAD_BUFFER, raw, None)
                else let bufferBits = bufferPtr cb in
                  if bufferBits = 0 then Return (BAD_BUFFER, raw, None)
                  else
                    (case waitHidlFence e acquireFence of
                       Fatal \<Rightarrow> Fatal
                     | Undef \<Rightarrow> Undef
                     | Return w \<Rightarrow>
                         if w \<noteq> 0 then Return (BAD_VALUE, raw, None)
                         else
                           (case lockYCbCr_layout (format cb) (width cb) (height cb) of
                              None \<Rightarrow> Return (BAD_BUFFER, raw, None)
                            | Some l \<Rightarrow>
                               (case (if hostHandle cb \<noteq> 0
                                      then lockHostImpl e cb checkedUsage accessRegion
                                      else Return NONE) of
                                  Fatal \<Rightarrow> Fatal
                                | Undef \<Rightarrow> Undef
                                | Return err \<Rightarrow>
                                    if err \<noteq> NONE then Return (err, raw, None)
                                    else
                                      Return (NONE,
                                        Some (CbHandle (setLocked cb checkedUsage accessRegion)),
                                        Some \<lparr>ycbcr_y = bufferBits,
                                              ycbcr_cb = bufferBits + uOffset l,
                                              ycbcr_cr = bufferBits + vOffset l,
                                              ycbcr_yStride = ucast (yStride l),
                                              ycbcr_cStride = ucast (cStride l),
                                              ycbcr_chromaStep = ucast (cStep l)\<rparr>))))))"

subsection \<open>Unlock\<close>

text \<open>
  \<^verbatim>\<open>unlockHostImpl\<close>: the push of a written buffer to the host. Only the paths matter
  here, as for \<^verbatim>\<open>lockHostImpl\<close>.
\<close>

definition unlockHostImpl :: "env \<Rightarrow> cb_handle_30_t \<Rightarrow> unit exec" where
  "unlockHostImpl e cb =
     (if ucast (lockedUsage cb) AND CPU_WRITE_MASK \<noteq> 0 then
        (if gralloc_is_yuv_format e (format cb) then
           (if format cb = YV12 then Return ()
            else if format cb = YCBCR_420_888 then Return ()
            else Fatal)
         else Return ())
      else Return ())"

text \<open>\<^verbatim>\<open>unlockImpl\<close>. The result is the error and what \<^verbatim>\<open>raw\<close> points to afterwards.\<close>

definition unlockImpl ::
  "env \<Rightarrow> native_handle option \<Rightarrow> (Error3 \<times> native_handle option) exec" where
  "unlockImpl e raw =
     (case raw of
        None \<Rightarrow> Return (BAD_BUFFER, raw)
      | Some h \<Rightarrow>
         (case from_handle h of
            None \<Rightarrow> Return (BAD_BUFFER, raw)
          | Some cb \<Rightarrow>
              if lockedUsage cb = 0 then Return (BAD_VALUE, raw)
              else if bufferSize cb = 0 then Return (BAD_BUFFER, raw)
              else let bufferBits = bufferPtr cb in
                if bufferBits = 0 then Return (BAD_BUFFER, raw)
                else
                  (case (if hostHandle cb \<noteq> 0 then unlockHostImpl e cb else Return ()) of
                     Fatal \<Rightarrow> Fatal
                   | Undef \<Rightarrow> Undef
                   | Return u \<Rightarrow>
                       Return (NONE,
                         Some (CbHandle (cb\<lparr>lockedLeft := 0,
                                            lockedTop := 0,
                                            lockedWidth := 0,
                                            lockedHeight := 0,
                                            lockedUsage := 0\<rparr>))))))"

subsection \<open>The support check\<close>

definition kReservedUsage :: u64 where
  "kReservedUsage =
     push_bit 10 one64 OR push_bit 13 one64 OR push_bit 19 one64 OR push_bit 21 one64
     OR ones 25 27 OR ones 32 47"

definition isSupportedImpl :: "BufferDescriptorInfo \<Rightarrow> bool" where
  "isSupportedImpl descriptor =
     (if d_width descriptor = 0 then False
      else if d_height descriptor = 0 then False
      else if d_layerCount descriptor \<noteq> 1 then False
      else let usage64 = d_usage descriptor in
        if usage64 AND kReservedUsage \<noteq> 0 then False
        else let usage32 = (ucast usage64 :: u32); fmt = d_format descriptor in
          if fmt = RGBA_8888 \<or> fmt = RGBX_8888 \<or> fmt = BGRA_8888 \<or> fmt = RGB_565
             \<or> fmt = RGBA_FP16 \<or> fmt = RGBA_1010102 \<or> fmt = YV12
             \<or> fmt = YCBCR_420_888 \<or> fmt = YCBCR_P010 then True
          else if fmt = IMPLEMENTATION_DEFINED then False
          else if fmt = RGB_888 \<or> fmt = YCRCB_420_SP \<or> fmt = RAW16 \<or> fmt = Y16
                  \<or> fmt = BLOB then \<not> needGpuBuffer usage32
          else if fmt = kOMX_COLOR_FormatYUV420Planar
               then (ucast usage32 AND VIDEO_DECODER) \<noteq> 0
          else False)"

subsection \<open>Vocabulary of the properties\<close>

text \<open>The region a handle records as locked: left, top, width, height.\<close>

definition locked_region :: "cb_handle_30_t \<Rightarrow> u32 \<times> u32 \<times> u32 \<times> u32" where
  "locked_region cb = (lockedLeft cb, lockedTop cb, lockedWidth cb, lockedHeight cb)"

text \<open>The invariant of a handle: a locked handle is mapped and has a size.\<close>

definition handle_inv :: "cb_handle_30_t \<Rightarrow> bool" where
  "handle_inv cb = (lockedUsage cb \<noteq> 0 \<longrightarrow> bufferPtr cb \<noteq> 0 \<and> bufferSize cb \<noteq> 0)"

definition handle_ok :: "native_handle option \<Rightarrow> bool" where
  "handle_ok raw = (case raw of Some (CbHandle cb) \<Rightarrow> handle_inv cb | _ \<Rightarrow> True)"

text \<open>
  What \<^verbatim>\<open>mmap\<close> promises of \<^verbatim>\<open>memoryMap\<close>: a mapping that succeeds is not at address 0.
\<close>

definition mmap_nonnull :: "env \<Rightarrow> bool" where
  "mmap_nonnull e = (\<forall>hint len fd off. fst (memoryMap e hint len fd off) = 0
                         \<longrightarrow> snd (memoryMap e hint len fd off) \<noteq> 0)"

text \<open>
  The usage bits that the specification lists as reserved, and the GPU and composer
  bits that \<^verbatim>\<open>needGpuBuffer\<close> tests.
\<close>

definition reserved_bits :: "nat set" where
  "reserved_bits = {10, 13, 19, 21} \<union> {25..27} \<union> {32..47}"

definition gpu_bits :: "nat set" where
  "gpu_bits = {8, 9, 11, 12, 24}"

text \<open>
  The formats that the support check accepts whatever the usage, and those it accepts
  only for a buffer that no GPU or composer usage needs.
\<close>

definition always_supported :: "i32 set" where
  "always_supported = {RGBA_8888, RGBX_8888, BGRA_8888, RGB_565, RGBA_FP16, RGBA_1010102,
                       YV12, YCBCR_420_888, YCBCR_P010}"

definition cpu_only_supported :: "i32 set" where
  "cpu_only_supported = {RGB_888, YCRCB_420_SP, RAW16, Y16, BLOB}"

text \<open>
  The plane layout as the specification tabulates it (section 4.3), over the integers:
  \<open>align(v, a) = (v + a - 1) & ~(a - 1)\<close>, and per format the luma stride, the chroma
  stride, the chroma step, the offset of the U plane and the offset of the V plane.
\<close>

definition spec_align :: "int \<Rightarrow> int \<Rightarrow> int" where
  "spec_align v a = (v + a - 1) AND NOT (a - 1)"

definition spec_layout :: "u32 \<Rightarrow> int \<Rightarrow> int \<Rightarrow> (int \<times> int \<times> int \<times> int \<times> int) option" where
  "spec_layout fmt w h =
     (if fmt = YCRCB_420_SP then
        (let y = w; c = y; v = y * h; u = v + 1 in Some (y, c, 2, u, v))
      else if fmt = YV12 then
        (let y = spec_align w 16; c = spec_align (y div 2) 16; v = y * h;
             u = v + c * h div 2
         in Some (y, c, 1, u, v))
      else if fmt = YCBCR_420_888 then
        (let y = w; c = y div 2; u = h * y; v = u + c * h div 2 in Some (y, c, 1, u, v))
      else if fmt = YCBCR_P010 then
        (let y = 2 * w; c = y; u = h * y; v = u + 2 in Some (y, c, 4, u, v))
      else None)"

text \<open>
  The layout that the code computes, read as integers in the order of the table.
\<close>

definition layout_values :: "yuv_layout \<Rightarrow> int \<times> int \<times> int \<times> int \<times> int" where
  "layout_values l = (uint (yStride l), uint (cStride l), uint (cStep l),
                      uint (uOffset l), uint (vOffset l))"

text \<open>
  The table fits the variables of the code when both offsets are below \<open>2 ^ 64\<close>
  (\<^verbatim>\<open>size_t\<close>) and, for \<^verbatim>\<open>YCBCR_P010\<close>, twice the width is below \<open>2 ^ 32\<close> (the product
  \<^verbatim>\<open>cb->width * 2\<close> of 32-bit operands).
\<close>

definition representable :: "u32 \<Rightarrow> int \<Rightarrow> int \<Rightarrow> bool" where
  "representable fmt w h =
     (case spec_layout fmt w h of
        None \<Rightarrow> True
      | Some (y, c, s, u, v) \<Rightarrow>
          u < 2 ^ 64 \<and> v < 2 ^ 64 \<and> (if fmt = YCBCR_P010 then y < 2 ^ 32 else True))"

subsection \<open>Example inputs\<close>

text \<open>
  A host whose calls succeed, and a 4 by 4 RGBA buffer with a host colour buffer,
  created for CPU reads and writes, imported and not locked.
\<close>

definition example_env :: env where
  "example_env = \<lparr>sync_wait = (\<lambda>fd t. (0, 0)),
                  rcColorBufferCacheFlush = (\<lambda>h r. 0),
                  hasYUVCache = False,
                  hasReadColorBufferDma = False,
                  gralloc_is_yuv_format = (\<lambda>f. f = YV12 \<or> f = YCBCR_420_888),
                  memoryMap = (\<lambda>hint len fd off. (0, 0x7000)),
                  dup_fds = (\<lambda>fs. Some fs)\<rparr>"

definition example_cb :: cb_handle_30_t where
  "example_cb = \<lparr>fds = [3], hostHandle = 7, format = RGBA_8888, stride = 4, bufferSize = 64,
                 mmapedOffset = 0, usage = 0x33, width = 4, height = 4, glFormat = 0x1908,
                 glType = 0x1401, bytesPerPixel = 4, mmapedSize = 4096, bufferPtr = 0x1000,
                 lockedUsage = 0, bufferFdIndex = 0, lockedLeft = 0, lockedTop = 0,
                 lockedWidth = 0, lockedHeight = 0\<rparr>"

definition example_rect :: Rect where
  "example_rect = \<lparr>rect_left = 1, rect_top = 1, rect_width = 2, rect_height = 2\<rparr>"

text \<open>The example buffer locked for writing over the example rectangle.\<close>

definition example_locked_cb :: cb_handle_30_t where
  "example_locked_cb = example_cb\<lparr>lockedLeft := 1, lockedTop := 1, lockedWidth := 2,
                                    lockedHeight := 2, lockedUsage := 0x30\<rparr>"

text \<open>A handle with no memory behind it: no size, nothing mapped.\<close>

definition example_empty_cb :: cb_handle_30_t where
  "example_empty_cb = example_cb\<lparr>bufferSize := 0, mmapedSize := 0, bufferPtr := 0\<rparr>"

text \<open>A fence handle with two file descriptors.\<close>

definition example_bad_fence :: native_handle_t where
  "example_bad_fence = \<lparr>numFds = 2, numInts = 0, data = [5, 6]\<rparr>"

text \<open>A fence handle as a client builds it: one file descriptor, no integer.\<close>

definition example_fence :: native_handle_t where
  "example_fence = \<lparr>numFds = 1, numInts = 0, data = [5]\<rparr>"

text \<open>The example buffer before its import, with no file descriptor for its memory.\<close>

definition example_nofd_cb :: cb_handle_30_t where
  "example_nofd_cb = example_cb\<lparr>bufferPtr := 0, bufferFdIndex := - 1\<rparr>"

text \<open>The example buffer without a host colour buffer.\<close>

definition example_guest_cb :: cb_handle_30_t where
  "example_guest_cb = example_cb\<lparr>hostHandle := 0\<rparr>"

text \<open>A 17 by 10 \<^verbatim>\<open>YV12\<close> buffer without a host colour buffer, not locked.\<close>

definition example_yuv_cb :: cb_handle_30_t where
  "example_yuv_cb = example_guest_cb\<lparr>format := YV12, width := 17, height := 10, stride := 32,
                                      bytesPerPixel := 1, bufferSize := 480\<rparr>"

text \<open>The example buffer before its import: not mapped yet.\<close>

definition example_raw_cb :: cb_handle_30_t where
  "example_raw_cb = example_cb\<lparr>bufferPtr := 0\<rparr>"

text \<open>A host on which mapping memory fails (\<^verbatim>\<open>ENOMEM\<close>).\<close>

definition example_failing_env :: env where
  "example_failing_env = example_env\<lparr>memoryMap := (\<lambda>hint len fd off. (12, 0))\<rparr>"

text \<open>A descriptor of a 1 by 1 \<^verbatim>\<open>RGB_888\<close> buffer with no usage bit.\<close>

definition example_descriptor :: BufferDescriptorInfo where
  "example_descriptor = \<lparr>d_width = 1, d_height = 1, d_layerCount = 1, d_format = RGB_888,
                         d_usage = 0\<rparr>"

section \<open>Properties\<close>

lemmas example_defs = example_env_def example_cb_def example_rect_def

lemmas usage_defs = CPU_READ_MASK_def CPU_WRITE_MASK_def checkedUsage_of_def

lemmas format_defs = RGBA_8888_def RGBX_8888_def RGB_888_def RGB_565_def BGRA_8888_def
  YCRCB_420_SP_def RGBA_FP16_def RAW16_def BLOB_def IMPLEMENTATION_DEFINED_def
  YCBCR_420_888_def RGBA_1010102_def YCBCR_P010_def Y16_def YV12_def
  kOMX_COLOR_FormatYUV420Planar_def

subsection \<open>What a lock and an unlock that return do to the handle\<close>

lemma lockImpl_success:
  assumes "lockImpl e raw u r f = Return (NONE, raw', out)"
  shows "\<exists>cb. raw = Some (CbHandle cb) \<and> lockedUsage cb = 0 \<and> checkedUsage_of u cb \<noteq> 0
           \<and> bufferSize cb \<noteq> 0 \<and> bufferPtr cb \<noteq> 0
           \<and> raw' = Some (CbHandle (setLocked cb (checkedUsage_of u cb) r))"
  using assms
  by (cases raw; cases "the raw")
     (auto simp: lockImpl_def Let_def split: if_splits exec.splits option.splits)

lemma lockYCbCrImpl_success:
  assumes "lockYCbCrImpl e raw u r f = Return (NONE, raw', out)"
  shows "\<exists>cb. raw = Some (CbHandle cb) \<and> lockedUsage cb = 0 \<and> checkedUsage_of u cb \<noteq> 0
           \<and> bufferSize cb \<noteq> 0 \<and> bufferPtr cb \<noteq> 0
           \<and> raw' = Some (CbHandle (setLocked cb (checkedUsage_of u cb) r))"
  using assms
  by (cases raw; cases "the raw")
     (auto simp: lockYCbCrImpl_def Let_def split: if_splits exec.splits option.splits)

lemma lockImpl_failure:
  assumes "lockImpl e raw u r f = Return (err, raw', out)" "err \<noteq> NONE"
  shows "raw' = raw \<and> out = None"
  using assms
  by (cases raw; cases "the raw")
     (auto simp: lockImpl_def Let_def split: if_splits exec.splits option.splits)

lemma lockYCbCrImpl_failure:
  assumes "lockYCbCrImpl e raw u r f = Return (err, raw', out)" "err \<noteq> NONE"
  shows "raw' = raw \<and> out = None"
  using assms
  by (cases raw; cases "the raw")
     (auto simp: lockYCbCrImpl_def Let_def split: if_splits exec.splits option.splits)

lemma unlockImpl_success:
  assumes "unlockImpl e raw = Return (NONE, raw')"
  shows "\<exists>cb. raw = Some (CbHandle cb) \<and> lockedUsage cb \<noteq> 0 \<and> bufferSize cb \<noteq> 0
           \<and> bufferPtr cb \<noteq> 0
           \<and> raw' = Some (CbHandle (cb\<lparr>lockedLeft := 0, lockedTop := 0, lockedWidth := 0,
                                        lockedHeight := 0, lockedUsage := 0\<rparr>))"
  using assms
  by (cases raw; cases "the raw")
     (auto simp: unlockImpl_def Let_def split: if_splits exec.splits option.splits)

lemma unlockImpl_failure:
  assumes "unlockImpl e raw = Return (err, raw')" "err \<noteq> NONE"
  shows "raw' = raw"
  using assms
  by (cases raw; cases "the raw")
     (auto simp: unlockImpl_def Let_def split: if_splits exec.splits option.splits)

lemma setLocked_usage: "lockedUsage (setLocked cb cu r) = cu"
  by (simp add: setLocked_def)

lemma setLocked_keeps:
  "bufferPtr (setLocked cb cu r) = bufferPtr cb"
  "bufferSize (setLocked cb cu r) = bufferSize cb"
  "hostHandle (setLocked cb cu r) = hostHandle cb"
  by (simp_all add: setLocked_def)

lemma setLocked_region:
  "locked_region (setLocked cb cu r) =
     (if ucast cu AND CPU_WRITE_MASK \<noteq> 0
      then (rect_left r, rect_top r, rect_width r, rect_height r)
      else (0, 0, width cb, height cb))"
  by (simp add: setLocked_def locked_region_def)

lemma example_lock:
  "lockImpl example_env (Some (CbHandle example_cb)) 0x30 example_rect None
     = Return (NONE, Some (CbHandle example_locked_cb), Some (0x1000, 4, 16))"
  by (simp add: lockImpl_def example_defs example_locked_cb_def usage_defs waitHidlFence_def
        lockHostImpl_def setLocked_def Let_def)

lemma example_unlock:
  "unlockImpl example_env (Some (CbHandle example_locked_cb))
     = Return (NONE, Some (CbHandle example_cb))"
  by (simp add: unlockImpl_def example_defs example_locked_cb_def usage_defs
        unlockHostImpl_def format_defs Let_def)

subsection \<open>Locking a locked handle\<close>

text \<open>
  Claim C3. On a handle that is locked (\<open>lockedUsage\<close> is not 0), \<^verbatim>\<open>lock\<close> and
  \<^verbatim>\<open>lockYCbCr\<close> return \<open>BAD_VALUE\<close>, whatever the usage, the region and the fence, and
  leave the handle as it was: the locked usage and the locked region with every other
  field. Nothing is stored through the output pointers.
\<close>

theorem relock_rejected:
  assumes "lockedUsage cb \<noteq> 0"
  shows "lockImpl e (Some (CbHandle cb)) u r f = Return (BAD_VALUE, Some (CbHandle cb), None)
       \<and> lockYCbCrImpl e (Some (CbHandle cb)) u r f
           = Return (BAD_VALUE, Some (CbHandle cb), None)"
  using assms by (simp add: lockImpl_def lockYCbCrImpl_def)

theorem relock_rejected_witness:
  "lockedUsage example_locked_cb = 0x30
   \<and> lockImpl example_env (Some (CbHandle example_locked_cb)) 0x33 example_rect None
      = Return (BAD_VALUE, Some (CbHandle example_locked_cb), None)
   \<and> lockYCbCrImpl example_env (Some (CbHandle example_locked_cb)) 0x33 example_rect None
      = Return (BAD_VALUE, Some (CbHandle example_locked_cb), None)"
  using relock_rejected [of example_locked_cb example_env "0x33" example_rect None]
  by (simp add: example_locked_cb_def)

subsection \<open>The state a lock records\<close>

text \<open>
  Claim C5. When \<^verbatim>\<open>lock\<close> (or \<^verbatim>\<open>lockYCbCr\<close>) returns \<open>NONE\<close>, the handle records the
  checked usage as its locked usage, and as its locked region the region the caller
  asked for when the checked usage has a CPU-write bit, and the whole buffer
  (0, 0, width, height) when it has none.
\<close>

theorem lock_records_state:
  assumes "lockImpl e raw u r f = Return (NONE, raw', out)
           \<or> lockYCbCrImpl e raw u r f = Return (NONE, raw', yout)"
  shows "\<exists>cb cb'. raw = Some (CbHandle cb) \<and> raw' = Some (CbHandle cb')
           \<and> lockedUsage cb' = checkedUsage_of u cb
           \<and> locked_region cb' =
               (if ucast (checkedUsage_of u cb) AND CPU_WRITE_MASK \<noteq> 0
                then (rect_left r, rect_top r, rect_width r, rect_height r)
                else (0, 0, width cb, height cb))"
  using assms
proof
  assume "lockImpl e raw u r f = Return (NONE, raw', out)"
  from lockImpl_success [OF this] show ?thesis
    by (auto simp: setLocked_usage setLocked_region)
next
  assume "lockYCbCrImpl e raw u r f = Return (NONE, raw', yout)"
  from lockYCbCrImpl_success [OF this] show ?thesis
    by (auto simp: setLocked_usage setLocked_region)
qed

theorem lock_records_state_witness:
  "lockImpl example_env (Some (CbHandle example_cb)) 0x30 example_rect None
     = Return (NONE, Some (CbHandle example_locked_cb), Some (0x1000, 4, 16))
   \<and> lockedUsage example_locked_cb = checkedUsage_of 0x30 example_cb
   \<and> locked_region example_locked_cb = (1, 1, 2, 2)"
  using lock_records_state [of example_env "Some (CbHandle example_cb)" "0x30" example_rect None
          "Some (CbHandle example_locked_cb)" "Some (0x1000, 4, 16)"] example_lock
  by (simp add: example_defs usage_defs)

subsection \<open>Lock, then unlock\<close>

text \<open>
  Claim C6. After a \<^verbatim>\<open>lock\<close> (or \<^verbatim>\<open>lockYCbCr\<close>) that returned \<open>NONE\<close>, an \<^verbatim>\<open>unlock\<close> of
  the handle does not return an error: it returns \<open>NONE\<close>, unless the push to the host
  ends the process. When it returns \<open>NONE\<close> the locked usage is 0 and the locked region
  is (0, 0, 0, 0), with or without a host handle, and no other field has changed since
  before the lock.
\<close>

theorem lock_unlock_round_trip:
  assumes "lockImpl e raw u r f = Return (NONE, raw1, out)
           \<or> lockYCbCrImpl e raw u r f = Return (NONE, raw1, yout)"
  shows "(unlockImpl e raw1 = Fatal \<or> (\<exists>raw2. unlockImpl e raw1 = Return (NONE, raw2)))
       \<and> (\<forall>raw2. unlockImpl e raw1 = Return (NONE, raw2) \<longrightarrow>
            (\<exists>cb cb2. raw = Some (CbHandle cb) \<and> raw2 = Some (CbHandle cb2)
               \<and> lockedUsage cb2 = 0 \<and> locked_region cb2 = (0, 0, 0, 0)
               \<and> cb2 = cb\<lparr>lockedLeft := 0, lockedTop := 0, lockedWidth := 0,
                            lockedHeight := 0, lockedUsage := 0\<rparr>))"
proof -
  from assms obtain cb where cb: "raw = Some (CbHandle cb)" "checkedUsage_of u cb \<noteq> 0"
      "bufferSize cb \<noteq> 0" "bufferPtr cb \<noteq> 0"
      "raw1 = Some (CbHandle (setLocked cb (checkedUsage_of u cb) r))"
    using lockImpl_success lockYCbCrImpl_success by blast
  let ?l = "setLocked cb (checkedUsage_of u cb) r"
  have l: "lockedUsage ?l \<noteq> 0" "bufferSize ?l \<noteq> 0" "bufferPtr ?l \<noteq> 0"
    using cb by (simp_all add: setLocked_usage setLocked_keeps)
  have cleared: "?l\<lparr>lockedLeft := 0, lockedTop := 0, lockedWidth := 0,
                     lockedHeight := 0, lockedUsage := 0\<rparr>
               = cb\<lparr>lockedLeft := 0, lockedTop := 0, lockedWidth := 0,
                     lockedHeight := 0, lockedUsage := 0\<rparr>"
    by (simp add: setLocked_def)
  have u: "unlockImpl e raw1 =
      (case (if hostHandle ?l \<noteq> 0 then unlockHostImpl e ?l else Return ()) of
         Fatal \<Rightarrow> Fatal | Undef \<Rightarrow> Undef
       | Return u \<Rightarrow> Return (NONE, Some (CbHandle (cb\<lparr>lockedLeft := 0, lockedTop := 0,
            lockedWidth := 0, lockedHeight := 0, lockedUsage := 0\<rparr>))))"
    using l cb(5) by (simp add: unlockImpl_def Let_def cleared split: exec.splits)
  have h: "unlockHostImpl e ?l = Fatal \<or> unlockHostImpl e ?l = Return ()"
    by (simp add: unlockHostImpl_def)
  show ?thesis
    using h cb(1) by (auto simp: u locked_region_def split: exec.splits)
qed

theorem lock_unlock_round_trip_witness:
  "lockImpl example_env (Some (CbHandle example_cb)) 0x30 example_rect None
     = Return (NONE, Some (CbHandle example_locked_cb), Some (0x1000, 4, 16))
   \<and> unlockImpl example_env (Some (CbHandle example_locked_cb))
       = Return (NONE, Some (CbHandle example_cb))
   \<and> lockedUsage example_cb = 0 \<and> locked_region example_cb = (0, 0, 0, 0)"
  using lock_unlock_round_trip [of example_env "Some (CbHandle example_cb)" "0x30" example_rect
          None "Some (CbHandle example_locked_cb)" "Some (0x1000, 4, 16)"]
        example_lock example_unlock
  by (simp add: example_cb_def locked_region_def)

subsection \<open>The errors of unlock\<close>

text \<open>
  Claim C7, as the code has it. \<^verbatim>\<open>unlockImpl\<close> tests the locked usage before the
  buffer size, so a handle that is not locked and has no size is answered \<open>BAD_VALUE\<close>,
  not \<open>BAD_BUFFER\<close>.
\<close>

theorem unlock_unlocked_empty_counterexample:
  "lockedUsage example_empty_cb = 0 \<and> bufferSize example_empty_cb = 0
   \<and> unlockImpl example_env (Some (CbHandle example_empty_cb))
       = Return (BAD_VALUE, Some (CbHandle example_empty_cb))"
  by (simp add: unlockImpl_def example_empty_cb_def example_cb_def)

text \<open>
  Claim C7, amended. \<^verbatim>\<open>unlock\<close> returns \<open>BAD_BUFFER\<close> for a null handle and for a handle
  of another layout; \<open>BAD_VALUE\<close> for a handle that is not locked, whatever its buffer
  size; and \<open>BAD_BUFFER\<close> for a locked handle whose buffer size is 0 or whose mapped
  pointer is null. In each case the handle is left as it was.
\<close>

theorem unlock_errors:
  "unlockImpl e None = Return (BAD_BUFFER, None)
   \<and> unlockImpl e (Some (Opaque fs)) = Return (BAD_BUFFER, Some (Opaque fs))
   \<and> (lockedUsage cb1 = 0 \<longrightarrow>
        unlockImpl e (Some (CbHandle cb1)) = Return (BAD_VALUE, Some (CbHandle cb1)))
   \<and> (lockedUsage cb2 \<noteq> 0 \<and> (bufferSize cb2 = 0 \<or> bufferPtr cb2 = 0) \<longrightarrow>
        unlockImpl e (Some (CbHandle cb2)) = Return (BAD_BUFFER, Some (CbHandle cb2)))"
  by (simp add: unlockImpl_def Let_def)

theorem unlock_errors_witness:
  "lockedUsage example_cb = 0
   \<and> unlockImpl example_env (Some (CbHandle example_cb))
        = Return (BAD_VALUE, Some (CbHandle example_cb))
   \<and> lockedUsage (example_empty_cb\<lparr>lockedUsage := 3\<rparr>) = 3
   \<and> bufferSize (example_empty_cb\<lparr>lockedUsage := 3\<rparr>) = 0
   \<and> unlockImpl example_env (Some (CbHandle (example_empty_cb\<lparr>lockedUsage := 3\<rparr>)))
        = Return (BAD_BUFFER, Some (CbHandle (example_empty_cb\<lparr>lockedUsage := 3\<rparr>)))"
  using unlock_errors [of example_env "[]" example_cb "example_empty_cb\<lparr>lockedUsage := 3\<rparr>"]
  by (simp add: example_cb_def example_empty_cb_def)

subsection \<open>The usage check of lock\<close>

lemma cpu_masks: "CPU_READ_MASK OR CPU_WRITE_MASK = mask 8"
  by (simp add: CPU_READ_MASK_def CPU_WRITE_MASK_def mask_eq_exp_minus_1)

lemma checkedUsage_exact:
  "(ucast (checkedUsage_of u cb) :: u64)
     = u AND ucast (usage cb) AND (CPU_READ_MASK OR CPU_WRITE_MASK)"
  unfolding checkedUsage_of_def cpu_masks
  by (rule bit_word_eqI) (auto simp: bit_simps)

lemma checkedUsage_zero:
  "checkedUsage_of u cb = 0 \<longleftrightarrow> u AND ucast (usage cb) AND (CPU_READ_MASK OR CPU_WRITE_MASK) = 0"
proof
  assume "checkedUsage_of u cb = 0"
  then have "(ucast (checkedUsage_of u cb) :: u64) = 0" by simp
  then show "u AND ucast (usage cb) AND (CPU_READ_MASK OR CPU_WRITE_MASK) = 0"
    by (simp add: checkedUsage_exact)
next
  assume "u AND ucast (usage cb) AND (CPU_READ_MASK OR CPU_WRITE_MASK) = 0"
  then show "checkedUsage_of u cb = 0" by (simp add: checkedUsage_of_def)
qed

lemma lockHostImpl_results:
  "lockHostImpl e cb cu r = Fatal \<or> lockHostImpl e cb cu r = Return NONE
   \<or> lockHostImpl e cb cu r = Return NO_RESOURCES"
  by (simp add: lockHostImpl_def Let_def)

text \<open>
  Claim C4, as the code has it. \<open>BAD_VALUE\<close> is also the answer to a fence that cannot
  be waited for: here the checked usage is 3 and \<^verbatim>\<open>lock\<close> returns \<open>BAD_VALUE\<close>.
\<close>

theorem lock_fence_bad_value_counterexample:
  "lockedUsage example_cb = 0 \<and> checkedUsage_of 0x3 example_cb = 3
   \<and> lockImpl example_env (Some (CbHandle example_cb)) 0x3 example_rect (Some example_bad_fence)
       = Return (BAD_VALUE, Some (CbHandle example_cb), None)"
  by (simp add: lockImpl_def example_defs usage_defs waitHidlFence_def example_bad_fence_def
        EINVAL_def)

text \<open>
  Claim C4, amended. On a handle that is not locked, the checked usage is the
  requested usage AND the usage the buffer was created with AND the CPU read and write
  masks (the cut to 8 bits loses nothing). \<^verbatim>\<open>lock\<close> returns \<open>BAD_VALUE\<close> whenever the
  checked usage is 0, so for every request disjoint from the CPU bits the buffer
  declares; with a checked usage that is not 0 it returns \<open>BAD_VALUE\<close> only when the
  buffer has a size and a mapping and the wait for the acquire fence fails.
\<close>

theorem lock_usage_check:
  assumes "lockedUsage cb = 0"
  shows "(ucast (checkedUsage_of u cb) :: u64)
           = u AND ucast (usage cb) AND (CPU_READ_MASK OR CPU_WRITE_MASK)
       \<and> (u AND ucast (usage cb) AND (CPU_READ_MASK OR CPU_WRITE_MASK) = 0 \<longrightarrow>
            lockImpl e (Some (CbHandle cb)) u r f = Return (BAD_VALUE, Some (CbHandle cb), None))
       \<and> ((\<exists>raw' out. lockImpl e (Some (CbHandle cb)) u r f = Return (BAD_VALUE, raw', out))
            \<longleftrightarrow> (u AND ucast (usage cb) AND (CPU_READ_MASK OR CPU_WRITE_MASK) = 0
                 \<or> (bufferSize cb \<noteq> 0 \<and> bufferPtr cb \<noteq> 0
                     \<and> (\<exists>w. waitHidlFence e f = Return w \<and> w \<noteq> 0))))"
proof (intro conjI impI)
  show "(ucast (checkedUsage_of u cb) :: u64)
           = u AND ucast (usage cb) AND (CPU_READ_MASK OR CPU_WRITE_MASK)"
    by (rule checkedUsage_exact)
next
  assume "u AND ucast (usage cb) AND (CPU_READ_MASK OR CPU_WRITE_MASK) = 0"
  then have "checkedUsage_of u cb = 0" by (simp add: checkedUsage_zero)
  then show "lockImpl e (Some (CbHandle cb)) u r f = Return (BAD_VALUE, Some (CbHandle cb), None)"
    using assms by (simp add: lockImpl_def)
next
  show "(\<exists>raw' out. lockImpl e (Some (CbHandle cb)) u r f = Return (BAD_VALUE, raw', out))
            \<longleftrightarrow> (u AND ucast (usage cb) AND (CPU_READ_MASK OR CPU_WRITE_MASK) = 0
                 \<or> (bufferSize cb \<noteq> 0 \<and> bufferPtr cb \<noteq> 0
                     \<and> (\<exists>w. waitHidlFence e f = Return w \<and> w \<noteq> 0)))"
    unfolding checkedUsage_zero [symmetric]
    using assms lockHostImpl_results [of e cb "checkedUsage_of u cb" r]
    by (auto simp: lockImpl_def Let_def split: exec.splits if_splits)
qed

theorem lock_usage_check_witness:
  "lockedUsage example_cb = 0
   \<and> (0xF00 :: u64) AND ucast (usage example_cb) AND (CPU_READ_MASK OR CPU_WRITE_MASK) = 0
   \<and> lockImpl example_env (Some (CbHandle example_cb)) 0xF00 example_rect None
       = Return (BAD_VALUE, Some (CbHandle example_cb), None)"
  using lock_usage_check [of example_cb "0xF00" example_env example_rect None]
  by (simp add: example_cb_def CPU_READ_MASK_def CPU_WRITE_MASK_def)

subsection \<open>The acquire fence\<close>

lemma lockHostImpl_sync_wait:
  "lockHostImpl (e\<lparr>sync_wait := sw\<rparr>) cb cu r = lockHostImpl e cb cu r"
  by (simp add: lockHostImpl_def)

lemma waitHidlFence_null: "waitHidlFence e None = Return 0"
  by (simp add: waitHidlFence_def)

text \<open>
  Claim C10. On a handle that is not locked, has a size and a mapping, and for a usage
  whose checked usage is not 0: with a null fence handle nothing is waited for
  (\<^verbatim>\<open>waitHidlFence\<close> returns 0, and the result of \<^verbatim>\<open>lock\<close> and \<^verbatim>\<open>lockYCbCr\<close> does not
  depend on \<^verbatim>\<open>sync_wait\<close>), the call is not refused with \<open>BAD_VALUE\<close>, and it is the call
  with a fence that has signaled. The lock proceeds: without a host handle, or with a
  host whose synchronisation succeeds, \<^verbatim>\<open>lock\<close> returns \<open>NONE\<close> with the handle locked and
  the mapped pointer handed back, and \<^verbatim>\<open>lockYCbCr\<close>, for a format that has a plane
  layout, returns \<open>NONE\<close> with the handle locked and the planes handed back; what is
  left to stop the call is the host (\<open>NO_RESOURCES\<close>) and, for \<^verbatim>\<open>lockYCbCr\<close>, a format
  without a layout (\<open>BAD_BUFFER\<close>), both with the handle as it was. With a fence handle
  of more than one file descriptor, or with any integer, both calls return \<open>BAD_VALUE\<close>
  and leave the handle as it was.
\<close>

theorem fence_handling:
  assumes "lockedUsage cb = 0" "checkedUsage_of u cb \<noteq> 0" "bufferSize cb \<noteq> 0"
    "bufferPtr cb \<noteq> 0"
  shows "waitHidlFence e None = Return 0
    \<and> lockImpl (e\<lparr>sync_wait := sw\<rparr>) (Some (CbHandle cb)) u r None
        = lockImpl e (Some (CbHandle cb)) u r None
    \<and> lockYCbCrImpl (e\<lparr>sync_wait := sw\<rparr>) (Some (CbHandle cb)) u r None
        = lockYCbCrImpl e (Some (CbHandle cb)) u r None
    \<and> (\<forall>raw' out. lockImpl e (Some (CbHandle cb)) u r None \<noteq> Return (BAD_VALUE, raw', out))
    \<and> (\<forall>raw' out. lockYCbCrImpl e (Some (CbHandle cb)) u r None \<noteq> Return (BAD_VALUE, raw', out))
    \<and> (hostHandle cb = 0 \<longrightarrow>
         lockImpl e (Some (CbHandle cb)) u r None
           = Return (NONE, Some (CbHandle (setLocked cb (checkedUsage_of u cb) r)),
                     Some (bufferPtr cb, bytesPerPixel cb, bytesPerPixel cb * stride cb)))
    \<and> (hostHandle cb = 0 \<or> lockHostImpl e cb (checkedUsage_of u cb) r = Return NONE \<longrightarrow>
         lockImpl e (Some (CbHandle cb)) u r None
           = Return (NONE, Some (CbHandle (setLocked cb (checkedUsage_of u cb) r)),
                     Some (bufferPtr cb, bytesPerPixel cb, bytesPerPixel cb * stride cb)))
    \<and> ((hostHandle cb = 0 \<or> lockHostImpl e cb (checkedUsage_of u cb) r = Return NONE)
          \<and> lockYCbCr_layout (format cb) (width cb) (height cb) = Some l \<longrightarrow>
         lockYCbCrImpl e (Some (CbHandle cb)) u r None
           = Return (NONE, Some (CbHandle (setLocked cb (checkedUsage_of u cb) r)),
                     Some \<lparr>ycbcr_y = bufferPtr cb,
                           ycbcr_cb = bufferPtr cb + uOffset l,
                           ycbcr_cr = bufferPtr cb + vOffset l,
                           ycbcr_yStride = ucast (yStride l),
                           ycbcr_cStride = ucast (cStride l),
                           ycbcr_chromaStep = ucast (cStep l)\<rparr>))
    \<and> (hostHandle cb \<noteq> 0 \<and> lockHostImpl e cb (checkedUsage_of u cb) r = Return NO_RESOURCES
          \<longrightarrow>
         lockImpl e (Some (CbHandle cb)) u r None
           = Return (NO_RESOURCES, Some (CbHandle cb), None))
    \<and> (hostHandle cb \<noteq> 0 \<and> lockHostImpl e cb (checkedUsage_of u cb) r = Return NO_RESOURCES
          \<and> lockYCbCr_layout (format cb) (width cb) (height cb) = Some l \<longrightarrow>
         lockYCbCrImpl e (Some (CbHandle cb)) u r None
           = Return (NO_RESOURCES, Some (CbHandle cb), None))
    \<and> (lockYCbCr_layout (format cb) (width cb) (height cb) = None \<longrightarrow>
         lockYCbCrImpl e (Some (CbHandle cb)) u r None
           = Return (BAD_BUFFER, Some (CbHandle cb), None))
    \<and> (numFds ok \<le> 1 \<and> numInts ok = 0
          \<and> (\<exists>fd rest. data ok = fd # rest \<and> waitFenceFd e fd = 0) \<longrightarrow>
         lockImpl e (Some (CbHandle cb)) u r (Some ok)
           = lockImpl e (Some (CbHandle cb)) u r None
         \<and> lockYCbCrImpl e (Some (CbHandle cb)) u r (Some ok)
           = lockYCbCrImpl e (Some (CbHandle cb)) u r None)
    \<and> (numFds nh > 1 \<or> numInts nh \<noteq> 0 \<longrightarrow>
         lockImpl e (Some (CbHandle cb)) u r (Some nh)
           = Return (BAD_VALUE, Some (CbHandle cb), None)
         \<and> lockYCbCrImpl e (Some (CbHandle cb)) u r (Some nh)
           = Return (BAD_VALUE, Some (CbHandle cb), None))"
proof (intro conjI impI allI)
  show "waitHidlFence e None = Return 0" by (simp add: waitHidlFence_def)
  show "lockImpl (e\<lparr>sync_wait := sw\<rparr>) (Some (CbHandle cb)) u r None
        = lockImpl e (Some (CbHandle cb)) u r None"
    by (simp add: lockImpl_def waitHidlFence_null lockHostImpl_sync_wait Let_def)
  show "lockYCbCrImpl (e\<lparr>sync_wait := sw\<rparr>) (Some (CbHandle cb)) u r None
        = lockYCbCrImpl e (Some (CbHandle cb)) u r None"
    by (simp add: lockYCbCrImpl_def waitHidlFence_null lockHostImpl_sync_wait Let_def
          split: option.splits)
  show "lockImpl e (Some (CbHandle cb)) u r None \<noteq> Return (BAD_VALUE, raw', out)" for raw' out
    using assms lockHostImpl_results [of e cb "checkedUsage_of u cb" r]
    by (auto simp: lockImpl_def waitHidlFence_def Let_def)
  show "lockYCbCrImpl e (Some (CbHandle cb)) u r None \<noteq> Return (BAD_VALUE, raw', out)" for raw' out
    using assms lockHostImpl_results [of e cb "checkedUsage_of u cb" r]
    by (auto simp: lockYCbCrImpl_def waitHidlFence_def Let_def split: option.splits)
  show "lockImpl e (Some (CbHandle cb)) u r None
           = Return (NONE, Some (CbHandle (setLocked cb (checkedUsage_of u cb) r)),
                     Some (bufferPtr cb, bytesPerPixel cb, bytesPerPixel cb * stride cb))"
    if "hostHandle cb = 0"
    using assms that by (simp add: lockImpl_def waitHidlFence_def Let_def)
next
  assume "hostHandle cb = 0 \<or> lockHostImpl e cb (checkedUsage_of u cb) r = Return NONE"
  then show "lockImpl e (Some (CbHandle cb)) u r None
           = Return (NONE, Some (CbHandle (setLocked cb (checkedUsage_of u cb) r)),
                     Some (bufferPtr cb, bytesPerPixel cb, bytesPerPixel cb * stride cb))"
    using assms by (auto simp: lockImpl_def waitHidlFence_null Let_def)
next
  assume "(hostHandle cb = 0 \<or> lockHostImpl e cb (checkedUsage_of u cb) r = Return NONE)
          \<and> lockYCbCr_layout (format cb) (width cb) (height cb) = Some l"
  then show "lockYCbCrImpl e (Some (CbHandle cb)) u r None
           = Return (NONE, Some (CbHandle (setLocked cb (checkedUsage_of u cb) r)),
                     Some \<lparr>ycbcr_y = bufferPtr cb,
                           ycbcr_cb = bufferPtr cb + uOffset l,
                           ycbcr_cr = bufferPtr cb + vOffset l,
                           ycbcr_yStride = ucast (yStride l),
                           ycbcr_cStride = ucast (cStride l),
                           ycbcr_chromaStep = ucast (cStep l)\<rparr>)"
    using assms by (auto simp: lockYCbCrImpl_def waitHidlFence_null Let_def)
next
  assume "hostHandle cb \<noteq> 0 \<and> lockHostImpl e cb (checkedUsage_of u cb) r = Return NO_RESOURCES"
  then show "lockImpl e (Some (CbHandle cb)) u r None
           = Return (NO_RESOURCES, Some (CbHandle cb), None)"
    using assms by (simp add: lockImpl_def waitHidlFence_null Let_def)
next
  assume "hostHandle cb \<noteq> 0 \<and> lockHostImpl e cb (checkedUsage_of u cb) r = Return NO_RESOURCES
          \<and> lockYCbCr_layout (format cb) (width cb) (height cb) = Some l"
  then show "lockYCbCrImpl e (Some (CbHandle cb)) u r None
           = Return (NO_RESOURCES, Some (CbHandle cb), None)"
    using assms by (simp add: lockYCbCrImpl_def waitHidlFence_null Let_def)
next
  assume "lockYCbCr_layout (format cb) (width cb) (height cb) = None"
  then show "lockYCbCrImpl e (Some (CbHandle cb)) u r None
           = Return (BAD_BUFFER, Some (CbHandle cb), None)"
    using assms by (simp add: lockYCbCrImpl_def waitHidlFence_null Let_def)
next
  assume "numFds ok \<le> 1 \<and> numInts ok = 0
          \<and> (\<exists>fd rest. data ok = fd # rest \<and> waitFenceFd e fd = 0)"
  then have s: "waitHidlFence e (Some ok) = Return 0"
    by (auto simp: waitHidlFence_def)
  show "lockImpl e (Some (CbHandle cb)) u r (Some ok)
           = lockImpl e (Some (CbHandle cb)) u r None"
    by (simp add: lockImpl_def s waitHidlFence_null Let_def)
  show "lockYCbCrImpl e (Some (CbHandle cb)) u r (Some ok)
           = lockYCbCrImpl e (Some (CbHandle cb)) u r None"
    by (simp add: lockYCbCrImpl_def s waitHidlFence_null Let_def)
next
  assume bad: "numFds nh > 1 \<or> numInts nh \<noteq> 0"
  then have w: "waitHidlFence e (Some nh) = Return (- EINVAL)"
    by (auto simp: waitHidlFence_def)
  show "lockImpl e (Some (CbHandle cb)) u r (Some nh)
           = Return (BAD_VALUE, Some (CbHandle cb), None)"
    using assms by (simp add: lockImpl_def w EINVAL_def Let_def)
  show "lockYCbCrImpl e (Some (CbHandle cb)) u r (Some nh)
           = Return (BAD_VALUE, Some (CbHandle cb), None)"
    using assms by (simp add: lockYCbCrImpl_def w EINVAL_def Let_def)
qed


lemma example_yuv_layout:
  "lockYCbCr_layout (format example_yuv_cb) (width example_yuv_cb) (height example_yuv_cb)
     = Some \<lparr>uOffset = 400, vOffset = 320, yStride = 32, cStride = 16, cStep = 1\<rparr>"
  by (simp add: lockYCbCr_layout_def example_yuv_cb_def example_guest_cb_def example_cb_def
        format_defs align_def Let_def)

theorem fence_handling_witness:
  "lockedUsage example_guest_cb = 0 \<and> checkedUsage_of 0x30 example_guest_cb = 0x30
   \<and> bufferSize example_guest_cb = 64 \<and> bufferPtr example_guest_cb = 0x1000
   \<and> hostHandle example_guest_cb = 0
   \<and> lockImpl example_env (Some (CbHandle example_guest_cb)) 0x30 example_rect None
       = Return (NONE, Some (CbHandle (setLocked example_guest_cb 0x30 example_rect)),
                 Some (0x1000, 4, 16))
   \<and> numFds example_fence = 1 \<and> numInts example_fence = 0 \<and> data example_fence = [5]
   \<and> waitFenceFd example_env 5 = 0
   \<and> lockImpl example_env (Some (CbHandle example_guest_cb)) 0x30 example_rect
        (Some example_fence)
       = Return (NONE, Some (CbHandle (setLocked example_guest_cb 0x30 example_rect)),
                 Some (0x1000, 4, 16))
   \<and> numFds example_bad_fence = 2
   \<and> lockImpl example_env (Some (CbHandle example_guest_cb)) 0x30 example_rect
        (Some example_bad_fence)
       = Return (BAD_VALUE, Some (CbHandle example_guest_cb), None)
   \<and> lockYCbCrImpl example_env (Some (CbHandle example_guest_cb)) 0x30 example_rect
        (Some example_bad_fence)
       = Return (BAD_VALUE, Some (CbHandle example_guest_cb), None)
   \<and> lockedUsage example_yuv_cb = 0 \<and> checkedUsage_of 0x30 example_yuv_cb = 0x30
   \<and> bufferSize example_yuv_cb = 480 \<and> bufferPtr example_yuv_cb = 0x1000
   \<and> hostHandle example_yuv_cb = 0
   \<and> lockYCbCrImpl example_env (Some (CbHandle example_yuv_cb)) 0x30 example_rect None
       = Return (NONE, Some (CbHandle (setLocked example_yuv_cb 0x30 example_rect)),
                 Some \<lparr>ycbcr_y = 0x1000, ycbcr_cb = 0x1190, ycbcr_cr = 0x1140,
                       ycbcr_yStride = 32, ycbcr_cStride = 16, ycbcr_chromaStep = 1\<rparr>)
   \<and> lockedUsage (setLocked example_yuv_cb 0x30 example_rect) = 0x30
   \<and> locked_region (setLocked example_yuv_cb 0x30 example_rect) = (1, 1, 2, 2)
   \<and> lockYCbCrImpl example_env (Some (CbHandle example_yuv_cb)) 0x30 example_rect
        (Some example_fence)
       = Return (NONE, Some (CbHandle (setLocked example_yuv_cb 0x30 example_rect)),
                 Some \<lparr>ycbcr_y = 0x1000, ycbcr_cb = 0x1190, ycbcr_cr = 0x1140,
                       ycbcr_yStride = 32, ycbcr_cStride = 16, ycbcr_chromaStep = 1\<rparr>)"
  using fence_handling [where cb = example_guest_cb and u = "0x30" and e = example_env
          and sw = "sync_wait example_env" and r = example_rect and ok = example_fence
          and nh = example_bad_fence
          and l = "\<lparr>uOffset = 400, vOffset = 320, yStride = 32, cStride = 16, cStep = 1\<rparr>"]
        fence_handling [where cb = example_yuv_cb and u = "0x30" and e = example_env
          and sw = "sync_wait example_env" and r = example_rect and ok = example_fence
          and nh = example_bad_fence
          and l = "\<lparr>uOffset = 400, vOffset = 320, yStride = 32, cStride = 16, cStep = 1\<rparr>"]
        example_yuv_layout
  by (simp add: example_yuv_cb_def example_guest_cb_def example_defs usage_defs
        example_fence_def example_bad_fence_def waitFenceFd_def setLocked_def
        locked_region_def)

subsection \<open>Import\<close>

lemma word_pos: "(0 < (x::'a::len word)) = (x \<noteq> 0)"
  by (simp add: word_neq_0_conv)

text \<open>
  Claim C9, as the code has it. A handle that declares a mapped size and has a negative
  \<^verbatim>\<open>bufferFdIndex\<close> ends the process (\<^verbatim>\<open>LOG_ALWAYS_FATAL_IF\<close>): the import returns
  neither an error nor a handle. And a handle that declares no mapped size is imported
  with its pointer as it was, here null.
\<close>

theorem import_abort_counterexample:
  "native_handle_clone example_env (CbHandle example_nofd_cb) = Some (CbHandle example_nofd_cb)
   \<and> mmapedSize example_nofd_cb = 4096
   \<and> importBufferImpl example_env (Some (CbHandle example_nofd_cb)) = Fatal
   \<and> native_handle_clone example_env (CbHandle example_empty_cb)
       = Some (CbHandle example_empty_cb)
   \<and> importBufferImpl example_env (Some (CbHandle example_empty_cb))
       = Return (NONE, Some (CbHandle example_empty_cb), [])
   \<and> bufferPtr example_empty_cb = 0"
  by (simp add: importBufferImpl_def native_handle_clone_def example_nofd_cb_def
        example_empty_cb_def example_defs)

text \<open>
  Claim C9, amended. \<^verbatim>\<open>import\<close> returns \<open>BAD_BUFFER\<close> for a null handle and when the
  clone fails; a clone of another layout is closed and deleted and \<open>BAD_BUFFER\<close> is
  returned. For a clone that declares a mapped size and whose \<^verbatim>\<open>bufferFdIndex\<close> points
  into its file descriptors, a mapping that fails gives \<open>NO_RESOURCES\<close>, the clone
  closed and deleted, and a mapping that succeeds gives \<open>NONE\<close> and the clone with the
  mapped address as its pointer. A clone that declares no mapped size is returned with
  \<open>NONE\<close> and its pointer as it was. A clone that declares a mapped size and has a
  negative \<^verbatim>\<open>bufferFdIndex\<close> ends the process.
\<close>

theorem import_results:
  "importBufferImpl e None = Return (BAD_BUFFER, None, [])
   \<and> (native_handle_clone e h = None \<longrightarrow>
        importBufferImpl e (Some h) = Return (BAD_BUFFER, None, []))
   \<and> (native_handle_clone e h = Some imported \<and> from_handle imported = None \<longrightarrow>
        importBufferImpl e (Some h)
          = Return (BAD_BUFFER, None, [HandleClosed imported, HandleDeleted imported]))
   \<and> (native_handle_clone e h = Some (CbHandle cb) \<and> mmapedSize cb \<noteq> 0
        \<and> 0 \<le> sint (bufferFdIndex cb) \<and> nat (sint (bufferFdIndex cb)) < length (fds cb)
        \<and> memoryMap e (bufferPtr cb) (mmapedSize cb) (fds cb ! nat (sint (bufferFdIndex cb)))
              (mmapedOffset cb) = (res, ptr) \<longrightarrow>
        importBufferImpl e (Some h)
          = (if res \<noteq> 0
             then Return (NO_RESOURCES, None,
                          [HandleClosed (CbHandle cb), HandleDeleted (CbHandle cb)])
             else Return (NONE, Some (CbHandle (cb\<lparr>bufferPtr := ptr\<rparr>)), [])))
   \<and> (native_handle_clone e h = Some (CbHandle cb) \<and> mmapedSize cb = 0 \<longrightarrow>
        importBufferImpl e (Some h) = Return (NONE, Some (CbHandle cb), []))
   \<and> (native_handle_clone e h = Some (CbHandle cb) \<and> mmapedSize cb \<noteq> 0
        \<and> sint (bufferFdIndex cb) < 0 \<longrightarrow>
        importBufferImpl e (Some h) = Fatal)"
  by (auto simp: importBufferImpl_def word_pos)

theorem import_results_witness:
  "native_handle_clone example_env (CbHandle example_raw_cb) = Some (CbHandle example_raw_cb)
   \<and> mmapedSize example_raw_cb = 4096 \<and> sint (bufferFdIndex example_raw_cb) = 0
   \<and> length (fds example_raw_cb) = 1
   \<and> importBufferImpl example_env (Some (CbHandle example_raw_cb))
       = Return (NONE, Some (CbHandle (example_raw_cb\<lparr>bufferPtr := 0x7000\<rparr>)), [])
   \<and> importBufferImpl example_failing_env (Some (CbHandle example_raw_cb))
       = Return (NO_RESOURCES, None,
                 [HandleClosed (CbHandle example_raw_cb), HandleDeleted (CbHandle example_raw_cb)])"
  using import_results [of example_env "CbHandle example_raw_cb" "CbHandle example_raw_cb"
          example_raw_cb 0 "0x7000"]
        import_results [of example_failing_env "CbHandle example_raw_cb"
          "CbHandle example_raw_cb" example_raw_cb 12 0]
  by (simp add: native_handle_clone_def example_raw_cb_def example_failing_env_def example_defs)

subsection \<open>The invariant of the lock state\<close>

lemma handle_ok_simps:
  "handle_ok None" "handle_ok (Some (Opaque fs))" "handle_ok (Some (CbHandle cb)) = handle_inv cb"
  by (simp_all add: handle_ok_def)

lemma handle_inv_setLocked:
  "bufferPtr cb \<noteq> 0 \<Longrightarrow> bufferSize cb \<noteq> 0 \<Longrightarrow> handle_inv (setLocked cb cu r)"
  by (simp add: handle_inv_def setLocked_keeps)

lemma lock_keeps_inv:
  assumes "handle_ok raw" "lockImpl e raw u r f = Return (err, raw', out)"
  shows "handle_ok raw'"
proof (cases "err = NONE")
  case True
  with assms(2) lockImpl_success [of e raw u r f raw' out] show ?thesis
    by (auto simp: handle_ok_simps handle_inv_setLocked)
next
  case False
  with assms lockImpl_failure [of e raw u r f err raw' out] show ?thesis by simp
qed

lemma lockYCbCr_keeps_inv:
  assumes "handle_ok raw" "lockYCbCrImpl e raw u r f = Return (err, raw', out)"
  shows "handle_ok raw'"
proof (cases "err = NONE")
  case True
  with assms(2) lockYCbCrImpl_success [of e raw u r f raw' out] show ?thesis
    by (auto simp: handle_ok_simps handle_inv_setLocked)
next
  case False
  with assms lockYCbCrImpl_failure [of e raw u r f err raw' out] show ?thesis by simp
qed

lemma unlock_keeps_inv:
  assumes "handle_ok raw" "unlockImpl e raw = Return (err, raw')"
  shows "handle_ok raw'"
proof (cases "err = NONE")
  case True
  with assms(2) unlockImpl_success [of e raw raw'] show ?thesis
    by (auto simp: handle_ok_simps handle_inv_def)
next
  case False
  with assms unlockImpl_failure [of e raw err raw'] show ?thesis by simp
qed

lemma free_keeps_inv:
  assumes "handle_ok raw" "freeBuffer raw = Return (err, raw', ev)"
  shows "handle_ok raw'"
  using assms
  by (cases raw; cases "the raw") (auto simp: freeBuffer_def handle_ok_simps)

lemma import_keeps_inv:
  assumes "handle_ok raw" "mmap_nonnull e"
    "importBufferImpl e raw = Return (err, imported, ev)"
  shows "handle_ok imported"
proof (cases raw)
  case None
  with assms(3) show ?thesis by (auto simp: importBufferImpl_def handle_ok_simps)
next
  case (Some h)
  show ?thesis
  proof (cases h)
    case (Opaque fs)
    with Some assms(3) show ?thesis
      by (auto simp: importBufferImpl_def native_handle_clone_def handle_ok_simps
               split: option.splits)
  next
    case (CbHandle cb)
    have inv: "handle_inv cb" using assms(1) Some CbHandle by (simp add: handle_ok_simps)
    have nn: "memoryMap e a b c d = (0, p) \<Longrightarrow> p \<noteq> 0" for a b c d p
      using assms(2) unfolding mmap_nonnull_def
      by (metis fst_conv snd_conv)
    show ?thesis
      using assms(3) Some CbHandle inv
      by (auto simp: importBufferImpl_def native_handle_clone_def handle_ok_simps
                     handle_inv_def
               split: option.splits if_splits prod.splits dest: nn)
  qed
qed

text \<open>
  Claim C2. The invariant (a locked handle has a mapped pointer that is not null and
  a buffer size that is not 0) holds of the handle after \<^verbatim>\<open>lock\<close>, \<^verbatim>\<open>lockYCbCr\<close>,
  \<^verbatim>\<open>unlock\<close> and \<^verbatim>\<open>free\<close> whenever it held before, and of the handle that \<^verbatim>\<open>import\<close>
  returns whenever it held of the handle imported (a successful \<^verbatim>\<open>mmap\<close> being at an
  address other than 0). A lock that succeeds leaves a locked handle with a pointer and
  a size; an unlock that succeeds leaves the locked usage 0.
\<close>

theorem lock_invariant_preserved:
  assumes "handle_ok raw"
  shows "(\<forall>err raw' out. lockImpl e raw u r f = Return (err, raw', out) \<longrightarrow> handle_ok raw')
   \<and> (\<forall>err raw' out. lockYCbCrImpl e raw u r f = Return (err, raw', out) \<longrightarrow> handle_ok raw')
   \<and> (\<forall>err raw'. unlockImpl e raw = Return (err, raw') \<longrightarrow> handle_ok raw')
   \<and> (\<forall>err raw' ev. freeBuffer raw = Return (err, raw', ev) \<longrightarrow> handle_ok raw')
   \<and> (mmap_nonnull e \<longrightarrow>
        (\<forall>err imported ev. importBufferImpl e raw = Return (err, imported, ev)
           \<longrightarrow> handle_ok imported))
   \<and> (\<forall>raw' out. lockImpl e raw u r f = Return (NONE, raw', out) \<longrightarrow>
        (\<exists>cb'. raw' = Some (CbHandle cb') \<and> lockedUsage cb' \<noteq> 0
                \<and> bufferPtr cb' \<noteq> 0 \<and> bufferSize cb' \<noteq> 0))
   \<and> (\<forall>raw' out. lockYCbCrImpl e raw u r f = Return (NONE, raw', out) \<longrightarrow>
        (\<exists>cb'. raw' = Some (CbHandle cb') \<and> lockedUsage cb' \<noteq> 0
                \<and> bufferPtr cb' \<noteq> 0 \<and> bufferSize cb' \<noteq> 0))
   \<and> (\<forall>raw'. unlockImpl e raw = Return (NONE, raw') \<longrightarrow>
        (\<exists>cb'. raw' = Some (CbHandle cb') \<and> lockedUsage cb' = 0))"
proof (intro conjI allI impI)
  fix raw' out
  assume "lockImpl e raw u r f = Return (NONE, raw', out)"
  from lockImpl_success [OF this]
  show "\<exists>cb'. raw' = Some (CbHandle cb') \<and> lockedUsage cb' \<noteq> 0
                \<and> bufferPtr cb' \<noteq> 0 \<and> bufferSize cb' \<noteq> 0"
    by (auto simp: setLocked_usage setLocked_keeps)
next
  fix raw' out
  assume "lockYCbCrImpl e raw u r f = Return (NONE, raw', out)"
  from lockYCbCrImpl_success [OF this]
  show "\<exists>cb'. raw' = Some (CbHandle cb') \<and> lockedUsage cb' \<noteq> 0
                \<and> bufferPtr cb' \<noteq> 0 \<and> bufferSize cb' \<noteq> 0"
    by (auto simp: setLocked_usage setLocked_keeps)
next
  fix raw'
  assume "unlockImpl e raw = Return (NONE, raw')"
  from unlockImpl_success [OF this]
  show "\<exists>cb'. raw' = Some (CbHandle cb') \<and> lockedUsage cb' = 0" by auto
qed (use assms in \<open>blast intro: lock_keeps_inv lockYCbCr_keeps_inv unlock_keeps_inv
       free_keeps_inv import_keeps_inv\<close>)+


theorem lock_invariant_preserved_witness:
  "handle_ok (Some (CbHandle example_cb))
   \<and> lockImpl example_env (Some (CbHandle example_cb)) 0x30 example_rect None
       = Return (NONE, Some (CbHandle example_locked_cb), Some (0x1000, 4, 16))
   \<and> handle_ok (Some (CbHandle example_locked_cb))
   \<and> lockedUsage example_locked_cb = 0x30 \<and> bufferPtr example_locked_cb = 0x1000
   \<and> bufferSize example_locked_cb = 64
   \<and> unlockImpl example_env (Some (CbHandle example_locked_cb))
       = Return (NONE, Some (CbHandle example_cb))
   \<and> mmap_nonnull example_env
   \<and> importBufferImpl example_env (Some (CbHandle example_locked_cb))
       = Return (NONE, Some (CbHandle (example_locked_cb\<lparr>bufferPtr := 0x7000\<rparr>)), [])
   \<and> handle_ok (Some (CbHandle (example_locked_cb\<lparr>bufferPtr := 0x7000\<rparr>)))"
  using lock_invariant_preserved [of "Some (CbHandle example_cb)" example_env "0x30"
          example_rect None]
        lock_invariant_preserved [of "Some (CbHandle example_locked_cb)" example_env "0x30"
          example_rect None]
        example_lock example_unlock
  by (simp add: handle_ok_def handle_inv_def mmap_nonnull_def importBufferImpl_def
        native_handle_clone_def example_locked_cb_def example_defs)

subsection \<open>Which descriptors are supported\<close>

lemma word_zero_bits: "(w :: 'a::len word) = 0 \<longleftrightarrow> (\<forall>n. \<not> bit w n)"
proof
  assume "w = 0"
  then show "\<forall>n. \<not> bit w n" by simp
next
  assume "\<forall>n. \<not> bit w n"
  then show "w = 0" by (intro bit_eqI) simp
qed

lemma word_nonzero_bits: "(w :: 'a::len word) \<noteq> 0 \<longleftrightarrow> (\<exists>n. bit w n)"
proof -
  have "w \<noteq> 0 \<longleftrightarrow> \<not> (\<forall>n. \<not> bit w n)"
    by (simp only: word_zero_bits [of w])
  then show ?thesis by (simp only: not_all not_not)
qed

lemma ones_mask: "ones from to = push_bit from (mask (to - from + 1))"
  by (simp add: ones_def one64_def mask_eq_exp_minus_1 push_bit_eq_mult)

lemma single_bit: "bit (push_bit k (1::u64)) n \<longleftrightarrow> n = k \<and> k < 64"
  by (auto simp: bit_simps)

lemma range_bits: "bit (push_bit a (mask k) :: u64) n \<longleftrightarrow> a \<le> n \<and> n < a + k \<and> n < 64"
  by (auto simp: bit_simps)

lemma kReservedUsage_bit: "bit kReservedUsage n \<longleftrightarrow> n \<in> reserved_bits"
proof -
  have "bit kReservedUsage n \<longleftrightarrow>
          n = 10 \<or> n = 13 \<or> n = 19 \<or> n = 21 \<or> (25 \<le> n \<and> n < 28) \<or> (32 \<le> n \<and> n < 48)"
    unfolding kReservedUsage_def ones_mask one64_def bit_or_iff single_bit range_bits
    by simp arith
  also have "\<dots> \<longleftrightarrow> n \<in> reserved_bits"
    unfolding reserved_bits_def by (simp add: Un_iff) arith
  finally show ?thesis .
qed

lemma kReservedUsage_value: "kReservedUsage = 0xFFFF0E282400"
  by (simp add: kReservedUsage_def ones_def one64_def)

lemma reserved_iff: "(u AND kReservedUsage = 0) \<longleftrightarrow> (\<forall>n\<in>reserved_bits. \<not> bit u n)"
proof -
  have "(u AND kReservedUsage = 0) \<longleftrightarrow> (\<forall>n. \<not> bit (u AND kReservedUsage) n)"
    by (rule word_zero_bits)
  then show ?thesis by (auto simp: bit_and_iff kReservedUsage_bit)
qed

lemma gpu_mask_bit:
  "bit (GPU_TEXTURE OR GPU_RENDER_TARGET OR COMPOSER_OVERLAY OR COMPOSER_CLIENT_TARGET
        OR GPU_DATA_BUFFER) n \<longleftrightarrow> n \<in> gpu_bits"
  unfolding GPU_TEXTURE_def GPU_RENDER_TARGET_def COMPOSER_OVERLAY_def
    COMPOSER_CLIENT_TARGET_def GPU_DATA_BUFFER_def gpu_bits_def bit_or_iff single_bit
  by auto

lemma ucast_low: "bit (ucast (ucast (u::u64) :: u32) :: u64) n \<longleftrightarrow> n < 32 \<and> bit u n"
  by (auto simp: bit_ucast_iff)

lemma needGpuBuffer_iff: "needGpuBuffer (ucast (u::u64)) \<longleftrightarrow> (\<exists>n\<in>gpu_bits. bit u n)"
proof -
  let ?m = "GPU_TEXTURE OR GPU_RENDER_TARGET OR COMPOSER_OVERLAY OR COMPOSER_CLIENT_TARGET
            OR GPU_DATA_BUFFER"
  have low: "n \<in> gpu_bits \<Longrightarrow> n < 32" for n
    by (auto simp: gpu_bits_def)
  have pt: "bit ((ucast (ucast u :: u32) :: u64) AND ?m) n \<longleftrightarrow> n \<in> gpu_bits \<and> bit u n" for n
    unfolding bit_and_iff gpu_mask_bit ucast_low using low [of n] by blast
  have "needGpuBuffer (ucast u) \<longleftrightarrow> (\<exists>n. bit ((ucast (ucast u :: u32) :: u64) AND ?m) n)"
    unfolding needGpuBuffer_def by (rule word_nonzero_bits)
  then have "needGpuBuffer (ucast u) \<longleftrightarrow> (\<exists>n. n \<in> gpu_bits \<and> bit u n)"
    by (simp only: pt)
  then show ?thesis by (simp only: Bex_def)
qed

lemma video_decoder_iff:
  "((ucast (ucast (u::u64) :: u32) :: u64) AND VIDEO_DECODER \<noteq> 0) \<longleftrightarrow> bit u 22"
proof -
  have pt: "bit ((ucast (ucast u :: u32) :: u64) AND VIDEO_DECODER) n \<longleftrightarrow> n = 22 \<and> bit u n"
    for n
    unfolding VIDEO_DECODER_def bit_and_iff single_bit ucast_low by auto
  have "((ucast (ucast u :: u32) :: u64) AND VIDEO_DECODER \<noteq> 0)
        \<longleftrightarrow> (\<exists>n. bit ((ucast (ucast u :: u32) :: u64) AND VIDEO_DECODER) n)"
    by (rule word_nonzero_bits)
  then show ?thesis by (simp only: pt simp_thms ex_simps)
qed

text \<open>
  Claim C8, amended. The support check returns true exactly when the width and the
  height are not 0, the layer count is 1, no reserved usage bit is set (bits 10, 13,
  19, 21, 25 to 27 and 32 to 47), and the format is one of the formats always
  supported, or one of the formats supported without GPU (\<^verbatim>\<open>RGB_888\<close>,
  \<^verbatim>\<open>YCRCB_420_SP\<close>, \<^verbatim>\<open>RAW16\<close>, \<^verbatim>\<open>Y16\<close>, \<^verbatim>\<open>BLOB\<close>) with none of the usage bits 8, 9, 11,
  12 and 24 set, or the OMX planar YUV 4:2:0 format (19) with the video decoder bit
  22 set.
\<close>

theorem isSupported_characterisation:
  "isSupportedImpl d \<longleftrightarrow>
     (d_width d \<noteq> 0 \<and> d_height d \<noteq> 0 \<and> d_layerCount d = 1
      \<and> (\<forall>n\<in>reserved_bits. \<not> bit (d_usage d) n)
      \<and> (d_format d \<in> always_supported
          \<or> d_format d \<in> cpu_only_supported \<and> (\<forall>n\<in>gpu_bits. \<not> bit (d_usage d) n)
          \<or> d_format d = kOMX_COLOR_FormatYUV420Planar \<and> bit (d_usage d) 22))"
  unfolding isSupportedImpl_def Let_def needGpuBuffer_iff video_decoder_iff reserved_iff
    always_supported_def cpu_only_supported_def
  by (auto simp: format_defs)


text \<open>
  Claim C8, as the code has it. The result depends on usage bits that are not
  reserved: a 1 by 1 \<^verbatim>\<open>RGB_888\<close> buffer is supported with no usage bit and is not
  supported with \<^verbatim>\<open>GPU_TEXTURE\<close> (bit 8), whatever set of formats is called supported.
\<close>

theorem isSupported_usage_counterexample:
  "isSupportedImpl example_descriptor
   \<and> \<not> isSupportedImpl (example_descriptor\<lparr>d_usage := 0x100\<rparr>)
   \<and> (0x100 :: u64) AND kReservedUsage = 0"
  by (simp add: isSupportedImpl_def example_descriptor_def kReservedUsage_value
        needGpuBuffer_def GPU_TEXTURE_def GPU_RENDER_TARGET_def COMPOSER_OVERLAY_def
        COMPOSER_CLIENT_TARGET_def GPU_DATA_BUFFER_def format_defs Let_def)

theorem isSupported_characterisation_witness:
  "isSupportedImpl (example_descriptor\<lparr>d_format := RGBA_8888, d_usage := 0x133\<rparr>)
   \<and> \<not> bit (d_usage (example_descriptor\<lparr>d_format := RGBA_8888, d_usage := 0x133\<rparr>)) 10
   \<and> \<not> isSupportedImpl (example_descriptor\<lparr>d_usage := 0x100\<rparr>)
   \<and> bit (0x100 :: u64) 8"
proof -
  let ?d = "example_descriptor\<lparr>d_format := RGBA_8888, d_usage := 0x133\<rparr>"
  have s: "isSupportedImpl ?d"
    by (simp add: isSupportedImpl_def example_descriptor_def kReservedUsage_value
          format_defs Let_def)
  have "10 \<in> reserved_bits" by (simp add: reserved_bits_def)
  with s isSupported_characterisation [of ?d] have "\<not> bit (d_usage ?d) 10" by blast
  moreover have "8 \<in> gpu_bits" "bit (0x100 :: u64) 8" by (simp_all add: gpu_bits_def)
  then have "\<not> isSupportedImpl (example_descriptor\<lparr>d_usage := 0x100\<rparr>)"
    using isSupported_characterisation [of "example_descriptor\<lparr>d_usage := 0x100\<rparr>"]
    by (auto simp: example_descriptor_def always_supported_def format_defs)
  ultimately show ?thesis using s by simp
qed

subsection \<open>The plane layout of lockYCbCr\<close>

lemma and_not_mask_eq: "(x::'a::len word) AND NOT (mask n) = push_bit n (drop_bit n x)"
  by (rule bit_word_eqI) (auto simp: bit_simps)

lemma int_and_not_mask_eq: "(x::int) AND NOT (mask n) = push_bit n (drop_bit n x)"
  by (rule bit_eqI) (auto simp: bit_simps)

lemma int_and_m16: "(x::int) AND - 16 = x div 16 * 16"
proof -
  have "(- 16 :: int) = - (2 ^ 4)" by simp
  also have "\<dots> = NOT (mask 4)" by (rule minus_exp_eq_not_mask)
  finally have m: "(- 16 :: int) = NOT (mask 4)" .
  show ?thesis
    by (simp only: m int_and_not_mask_eq) (simp add: push_bit_eq_mult drop_bit_eq_div)
qed

lemma spec_align_16: "spec_align v 16 = (v + 15) div 16 * 16"
  by (simp add: spec_align_def int_and_m16 add.commute)

lemma uint_and_m16: "uint ((x::u64) AND - 16) = uint x div 16 * 16"
proof -
  have "(- 16 :: u64) = - (2 ^ 4)" by simp
  also have "\<dots> = NOT (mask 4)" by (rule minus_exp_eq_not_mask)
  finally have m: "(- 16 :: u64) = NOT (mask 4)" .
  have b: "0 \<le> uint x div 16 * 16" "uint x div 16 * 16 \<le> uint x"
    by (simp_all add: div_int_pos_iff)
  have "uint x < 18446744073709551616" using uint_bounded [of x] by simp
  with b have lt: "uint x div 16 * 16 < 2 ^ 64" by simp
  have tb: "take_bit 64 (uint x) = uint x"
    using \<open>uint x < 18446744073709551616\<close> by (simp add: take_bit_int_eq_self)
  have "uint (x AND - 16) = uint (push_bit 4 (drop_bit 4 x))"
    by (simp only: m and_not_mask_eq)
  also have "\<dots> = take_bit 64 (push_bit 4 (drop_bit 4 (uint x)))"
    unfolding unsigned_push_bit_eq unsigned_drop_bit_eq by (simp add: tb)
  also have "\<dots> = take_bit 64 (uint x div 16 * 16)"
    by (simp add: push_bit_eq_mult drop_bit_eq_div)
  also have "\<dots> = uint x div 16 * 16"
    using b(1) lt by (simp add: take_bit_int_eq_self)
  finally show ?thesis .
qed

lemma uint_align_16:
  assumes "uint v + 15 < 2 ^ 64"
  shows "uint (align v 16) = spec_align (uint v) 16"
proof -
  have "uint (v + 15) = uint v + 15"
    using assms by (simp add: uint_word_ariths take_bit_int_eq_self flip: take_bit_eq_mod)
  then show ?thesis
    by (simp add: align_def uint_and_m16 spec_align_16 add.commute)
qed

lemma uint_ucast_32_64: "uint (ucast (w::u32) :: u64) = uint w"
proof -
  have "uint w < 4294967296" using uint_bounded [of w] by simp
  then have "uint w < 2 ^ 64" by simp
  then show ?thesis by (simp add: unsigned_ucast_eq take_bit_int_eq_self)
qed


lemma uint_u32_bounds: "0 \<le> uint (w::u32)" "uint (w::u32) \<le> 4294967295"
  using uint_bounded [of w] by simp_all

lemma mult_bound:
  fixes a b :: int
  assumes "0 \<le> a" "a \<le> A" "0 \<le> b" "b \<le> B"
  shows "a * b \<le> A * B"
  using assms by (intro mult_mono) auto

lemma uint_mult_exact:
  fixes a b :: u64
  assumes "uint a * uint b < 2 ^ 64"
  shows "uint (a * b) = uint a * uint b"
  using assms uint_mult_lem [of a b] by simp

lemma uint_add_exact:
  fixes a b :: u64
  assumes "uint a + uint b < 2 ^ 64"
  shows "uint (a + b) = uint a + uint b"
  using assms uint_add_lem [of a b] by simp

lemma layout_sp:
  "map_option layout_values (lockYCbCr_layout YCRCB_420_SP w h)
     = spec_layout YCRCB_420_SP (uint w) (uint h)"
proof -
  let ?W = "uint w" and ?H = "uint h"
  have p: "?W * ?H \<le> 4294967295 * 4294967295"
    by (rule mult_bound) (simp_all add: uint_u32_bounds)
  have v: "uint (ucast w * ucast h :: u64) = ?W * ?H"
    using p by (simp add: uint_mult_exact uint_ucast_32_64)
  have u: "uint (ucast w * ucast h + 1 :: u64) = ?W * ?H + 1"
    using p by (simp add: uint_add_exact v)
  show ?thesis
    by (simp add: lockYCbCr_layout_def spec_layout_def layout_values_def Let_def
          uint_ucast_32_64 u v)
qed

lemma layout_yuv420:
  assumes "representable YCBCR_420_888 (uint w) (uint h)"
  shows "map_option layout_values (lockYCbCr_layout YCBCR_420_888 w h)
     = spec_layout YCBCR_420_888 (uint w) (uint h)"
proof -
  let ?W = "uint w" and ?H = "uint h"
  have r: "?H * ?W + ?W div 2 * ?H div 2 < 2 ^ 64"
    using assms by (simp add: representable_def spec_layout_def Let_def format_defs)
  have p: "?H * ?W \<le> 4294967295 * 4294967295"
    by (rule mult_bound) (simp_all add: uint_u32_bounds)
  have c: "uint (ucast w div 2 :: u64) = ?W div 2"
    by (simp add: uint_div uint_ucast_32_64)
  have "?W div 2 \<le> 4294967295" "0 \<le> ?W div 2"
    using uint_u32_bounds [of w] by simp_all
  then have q: "?W div 2 * ?H \<le> 4294967295 * 4294967295"
    by (intro mult_bound) (simp_all add: uint_u32_bounds)
  have u: "uint (ucast h * ucast w :: u64) = ?H * ?W"
    using p by (simp add: uint_mult_exact uint_ucast_32_64)
  have ch: "uint (ucast w div 2 * ucast h div 2 :: u64) = ?W div 2 * ?H div 2"
    using q by (simp add: uint_div uint_mult_exact c uint_ucast_32_64)
  have v: "uint (ucast h * ucast w + ucast w div 2 * ucast h div 2 :: u64)
             = ?H * ?W + ?W div 2 * ?H div 2"
    using r by (simp add: uint_add_exact u ch)
  show ?thesis
    by (simp add: lockYCbCr_layout_def spec_layout_def layout_values_def Let_def
          format_defs uint_ucast_32_64 c u v)
qed

lemma layout_p010:
  assumes "representable YCBCR_P010 (uint w) (uint h)"
  shows "map_option layout_values (lockYCbCr_layout YCBCR_P010 w h)
     = spec_layout YCBCR_P010 (uint w) (uint h)"
proof -
  let ?W = "uint w" and ?H = "uint h"
  have r: "2 * ?W < 2 ^ 32"
    using assms by (simp add: representable_def spec_layout_def Let_def format_defs)
  have y32: "uint (w * 2) = 2 * ?W"
    using r uint_u32_bounds [of w]
    by (simp add: uint_word_ariths take_bit_int_eq_self mult.commute flip: take_bit_eq_mod)
  have y: "uint (ucast (w * 2) :: u64) = 2 * ?W"
    by (simp add: uint_ucast_32_64 y32)
  have p: "?H * (2 * ?W) \<le> 4294967295 * 4294967295"
    using r by (intro mult_bound) (simp_all add: uint_u32_bounds)
  have y0: "0 \<le> 2 * ?W" using uint_u32_bounds [of w] by simp
  have u: "uint (ucast h * ucast (w * 2) :: u64) = ?H * (2 * ?W)"
  proof -
    have "uint (ucast h :: u64) * uint (ucast (w * 2) :: u64) = ?H * (2 * ?W)"
      by (simp only: uint_ucast_32_64 y32)
    with p have "uint (ucast h :: u64) * uint (ucast (w * 2) :: u64) < 2 ^ 64" by simp
    from uint_mult_exact [OF this] show ?thesis
      by (simp only: uint_ucast_32_64 y32)
  qed
  have v: "uint (ucast h * ucast (w * 2) + 2 :: u64) = ?H * (2 * ?W) + 2"
  proof -
    have "uint (ucast h * ucast (w * 2) :: u64) + uint (2 :: u64) = ?H * (2 * ?W) + 2"
      by (simp only: u) simp
    with p have "uint (ucast h * ucast (w * 2) :: u64) + uint (2 :: u64) < 2 ^ 64" by simp
    from uint_add_exact [OF this] show ?thesis
      by (simp only: u) simp
  qed
  have l: "lockYCbCr_layout YCBCR_P010 w h
             = Some \<lparr>uOffset = ucast h * ucast (w * 2),
                      vOffset = ucast h * ucast (w * 2) + 2,
                      yStride = ucast (w * 2), cStride = ucast (w * 2), cStep = 4\<rparr>"
    unfolding lockYCbCr_layout_def Let_def by (simp add: format_defs)
  have sp: "spec_layout YCBCR_P010 ?W ?H
             = Some (2 * ?W, 2 * ?W, 4, ?H * (2 * ?W), ?H * (2 * ?W) + 2)"
    unfolding spec_layout_def Let_def by (simp add: format_defs)
  show ?thesis
    unfolding l sp layout_values_def by (simp add: y u v)
qed


lemma spec_align_16_bounds:
  assumes "0 \<le> v" "v \<le> b" "b mod 16 = 0"
  shows "0 \<le> spec_align v 16" "spec_align v 16 \<le> v + 15" "spec_align v 16 \<le> b"
  using assms unfolding spec_align_16 by presburger+

lemma layout_yv12:
  assumes "representable YV12 (uint w) (uint h)"
  shows "map_option layout_values (lockYCbCr_layout YV12 w h)
     = spec_layout YV12 (uint w) (uint h)"
proof -
  let ?W = "uint w" and ?H = "uint h"
  let ?Y = "spec_align ?W 16"
  let ?C = "spec_align (?Y div 2) 16"
  let ?yS = "align (ucast w) 16"
  let ?cS = "align (?yS div 2) 16"
  have sp: "spec_layout YV12 ?W ?H = Some (?Y, ?C, 1, ?Y * ?H + ?C * ?H div 2, ?Y * ?H)"
    unfolding spec_layout_def Let_def by (simp add: format_defs)
  have l: "lockYCbCr_layout YV12 w h
             = Some \<lparr>uOffset = ?yS * ucast h + ?cS * ucast h div 2,
                      vOffset = ?yS * ucast h,
                      yStride = ?yS, cStride = ?cS, cStep = 1\<rparr>"
    unfolding lockYCbCr_layout_def Let_def by (simp add: format_defs)
  have r: "?Y * ?H + ?C * ?H div 2 < 2 ^ 64"
    using assms unfolding representable_def sp by simp
  have yb: "0 \<le> ?Y" "?Y \<le> 4294967296"
    using uint_u32_bounds [of w] by (auto intro: spec_align_16_bounds [where b = 4294967296])
  have y: "uint ?yS = ?Y"
    using uint_u32_bounds [of w] by (simp add: uint_align_16 uint_ucast_32_64)
  have h2: "uint (?yS div 2) = ?Y div 2"
    by (simp add: uint_div y)
  have cb: "0 \<le> ?C" "?C \<le> 2147483648"
    using yb by (auto intro: spec_align_16_bounds [where b = 2147483648])
  have c: "uint ?cS = ?C"
    using yb by (simp add: uint_align_16 h2)
  have p: "?Y * ?H \<le> 4294967296 * 4294967295"
    using yb by (intro mult_bound) (simp_all add: uint_u32_bounds)
  have q: "?C * ?H \<le> 2147483648 * 4294967295"
    using cb by (intro mult_bound) (simp_all add: uint_u32_bounds)
  have v: "uint (?yS * ucast h) = ?Y * ?H"
  proof -
    have "uint ?yS * uint (ucast h :: u64) = ?Y * ?H"
      by (simp only: uint_ucast_32_64 y)
    with p have "uint ?yS * uint (ucast h :: u64) < 2 ^ 64" by simp
    from uint_mult_exact [OF this] show ?thesis
      by (simp only: uint_ucast_32_64 y)
  qed
  have ch: "uint (?cS * ucast h div 2) = ?C * ?H div 2"
  proof -
    have "uint ?cS * uint (ucast h :: u64) = ?C * ?H"
      by (simp only: uint_ucast_32_64 c)
    with q have "uint ?cS * uint (ucast h :: u64) < 2 ^ 64" by simp
    from uint_mult_exact [OF this] have "uint (?cS * ucast h) = ?C * ?H"
      by (simp only: uint_ucast_32_64 c)
    then show ?thesis by (simp add: uint_div)
  qed
  have u: "uint (?yS * ucast h + ?cS * ucast h div 2) = ?Y * ?H + ?C * ?H div 2"
  proof -
    have "uint (?yS * ucast h) + uint (?cS * ucast h div 2) < 2 ^ 64"
      using r by (simp only: v ch)
    from uint_add_exact [OF this] show ?thesis by (simp only: v ch)
  qed
  show ?thesis
    unfolding l sp layout_values_def by (simp add: y c u v)
qed

lemma half_le: "0 \<le> (x::int) \<Longrightarrow> x div 2 \<le> x"
  by simp

lemma layout_other:
  assumes "fmt \<noteq> YCRCB_420_SP" "fmt \<noteq> YV12" "fmt \<noteq> YCBCR_420_888" "fmt \<noteq> YCBCR_P010"
  shows "lockYCbCr_layout fmt w h = None" "spec_layout fmt W H = None"
  using assms by (simp_all add: lockYCbCr_layout_def spec_layout_def)

lemma layout_refines_table:
  assumes "representable fmt (uint w) (uint h)"
  shows "map_option layout_values (lockYCbCr_layout fmt w h) = spec_layout fmt (uint w) (uint h)"
proof -
  consider "fmt = YCRCB_420_SP" | "fmt = YV12" | "fmt = YCBCR_420_888" | "fmt = YCBCR_P010"
    | "fmt \<noteq> YCRCB_420_SP" "fmt \<noteq> YV12" "fmt \<noteq> YCBCR_420_888" "fmt \<noteq> YCBCR_P010"
    by blast
  then show ?thesis
  proof cases
    case 1 then show ?thesis by (simp only: layout_sp)
  next
    case 2 with assms show ?thesis by (simp only: layout_yv12)
  next
    case 3 with assms show ?thesis by (simp only: layout_yuv420)
  next
    case 4 with assms show ?thesis by (simp only: layout_p010)
  next
    case 5
    then show ?thesis by (simp add: layout_other)
  qed
qed

lemma representable_sp: "representable YCRCB_420_SP (uint (w::u32)) (uint (h::u32))"
proof -
  have "uint w * uint h \<le> 4294967295 * 4294967295"
    by (rule mult_bound) (simp_all add: uint_u32_bounds)
  then show ?thesis
    by (simp add: representable_def spec_layout_def Let_def format_defs)
qed

lemma representable_small:
  assumes "uint (w::u32) < 2 ^ 31" "uint (h::u32) < 2 ^ 31"
  shows "representable fmt (uint w) (uint h)"
proof -
  let ?W = "uint w" and ?H = "uint h"
  let ?Y = "spec_align ?W 16"
  let ?C = "spec_align (?Y div 2) 16"
  have w: "0 \<le> ?W" "?W \<le> 2147483647" and h: "0 \<le> ?H" "?H \<le> 2147483647"
    using assms by simp_all
  have yb: "0 \<le> ?Y" "?Y \<le> 2147483648"
    using w by (auto intro: spec_align_16_bounds [where b = 2147483648])
  have cb: "0 \<le> ?C" "?C \<le> 1073741824"
    using yb by (auto intro: spec_align_16_bounds [where b = 1073741824])
  have wh: "?W * ?H \<le> 2147483647 * 2147483647"
    by (rule mult_bound) (use w h in simp_all)
  have w2h: "?W div 2 * ?H \<le> 2147483647 * 2147483647"
    by (rule mult_bound) (use w h in simp_all)
  have yh: "?Y * ?H \<le> 2147483648 * 2147483647"
    by (rule mult_bound) (use yb h in simp_all)
  have ch: "?C * ?H \<le> 1073741824 * 2147483647"
    by (rule mult_bound) (use cb h in simp_all)
  have nn: "0 \<le> ?W div 2 * ?H" "0 \<le> ?C * ?H"
    using w h cb by simp_all
  have d1: "?C * ?H div 2 \<le> ?C * ?H" by (rule half_le) (rule nn(2))
  have d2: "?W div 2 * ?H div 2 \<le> ?W div 2 * ?H" by (rule half_le) (rule nn(1))
  show ?thesis
    unfolding representable_def spec_layout_def Let_def
    using w wh w2h yh ch d1 d2 by (simp add: mult.commute format_defs)
qed


lemma lockYCbCrImpl_layout:
  assumes "lockYCbCrImpl e raw u r f = Return (NONE, raw', out)"
  shows "\<exists>cb l. raw = Some (CbHandle cb)
           \<and> lockYCbCr_layout (format cb) (width cb) (height cb) = Some l
           \<and> out = Some \<lparr>ycbcr_y = bufferPtr cb,
                           ycbcr_cb = bufferPtr cb + uOffset l,
                           ycbcr_cr = bufferPtr cb + vOffset l,
                           ycbcr_yStride = ucast (yStride l),
                           ycbcr_cStride = ucast (cStride l),
                           ycbcr_chromaStep = ucast (cStep l)\<rparr>"
  using assms
  by (cases raw; cases "the raw")
     (auto simp: lockYCbCrImpl_def Let_def split: if_splits exec.splits option.splits)

text \<open>
  Claim C1, as the code has it. For \<^verbatim>\<open>YCBCR_P010\<close> and a width of \<open>2 ^ 31\<close> the 32-bit
  product \<^verbatim>\<open>cb->width * 2\<close> is 0, where the table has \<open>2 ^ 32\<close>; for \<^verbatim>\<open>YV12\<close> and a
  width and height of \<open>2 ^ 32 - 1\<close> the offset of the U plane leaves the 64 bits of
  \<^verbatim>\<open>size_t\<close>.
\<close>

theorem layout_overflow_counterexample:
  "map_option layout_values (lockYCbCr_layout YCBCR_P010 0x80000000 1) = Some (0, 0, 4, 0, 2)
   \<and> spec_layout YCBCR_P010 (uint (0x80000000 :: u32)) (uint (1 :: u32))
       = Some (4294967296, 4294967296, 4, 4294967296, 4294967298)
   \<and> map_option layout_values (lockYCbCr_layout YV12 0xFFFFFFFF 0xFFFFFFFF)
       = Some (4294967296, 2147483648, 1, 4611686013058678784, 18446744069414584320)
   \<and> spec_layout YV12 (uint (0xFFFFFFFF :: u32)) (uint (0xFFFFFFFF :: u32))
       = Some (4294967296, 2147483648, 1, 23058430086768230400, 18446744069414584320)"
  by (simp add: lockYCbCr_layout_def spec_layout_def layout_values_def Let_def format_defs
        align_def spec_align_16)

text \<open>
  Claim C1, amended. The layout that \<^verbatim>\<open>lockYCbCr\<close> computes is the layout of the
  table, format by format, whenever the table fits the variables of the code; it does
  for every width and height below \<open>2 ^ 31\<close>, and for \<^verbatim>\<open>YCRCB_420_SP\<close> always. A format
  outside the table has no layout. The pointers and strides that a successful
  \<^verbatim>\<open>lockYCbCr\<close> hands back are the mapped pointer plus these offsets, and these strides
  cut to 32 bits. For \<^verbatim>\<open>YV12\<close>, width 17 and height 10: strides 32 and 16, step 1, V
  plane at 320, U plane at 400.
\<close>

theorem lockYCbCr_layout_table:
  "(representable fmt (uint w) (uint h) \<longrightarrow>
      map_option layout_values (lockYCbCr_layout fmt w h) = spec_layout fmt (uint w) (uint h))
   \<and> (uint w < 2 ^ 31 \<and> uint h < 2 ^ 31 \<longrightarrow> representable fmt (uint w) (uint h))
   \<and> representable YCRCB_420_SP (uint w) (uint h)
   \<and> (\<forall>e raw u r f raw' out.
        lockYCbCrImpl e raw u r f = Return (NONE, raw', out) \<longrightarrow>
        (\<exists>cb l. raw = Some (CbHandle cb)
           \<and> lockYCbCr_layout (format cb) (width cb) (height cb) = Some l
           \<and> out = Some \<lparr>ycbcr_y = bufferPtr cb,
                           ycbcr_cb = bufferPtr cb + uOffset l,
                           ycbcr_cr = bufferPtr cb + vOffset l,
                           ycbcr_yStride = ucast (yStride l),
                           ycbcr_cStride = ucast (cStride l),
                           ycbcr_chromaStep = ucast (cStep l)\<rparr>))"
  using layout_refines_table [of fmt w h] representable_small [of w h fmt]
    representable_sp [of w h] lockYCbCrImpl_layout
  by blast

theorem lockYCbCr_layout_table_witness:
  "uint (17 :: u32) < 2 ^ 31 \<and> uint (10 :: u32) < 2 ^ 31
   \<and> representable YV12 (uint (17 :: u32)) (uint (10 :: u32))
   \<and> map_option layout_values (lockYCbCr_layout YV12 17 10) = Some (32, 16, 1, 400, 320)"
  using lockYCbCr_layout_table [of YV12 17 10]
  by (simp add: spec_layout_def spec_align_16 Let_def format_defs)

end
